theory Spec2Isabelle
  imports Complex_Main "HOL-Library.Sublist"
begin

section \<open>JavaScript values and outcomes\<close>

text \<open>
  A JavaScript string is modelled as a \<^typ>\<open>string\<close>: one \<^typ>\<open>char\<close> per code unit,
  which covers the code units below 256. A call of the original either returns a value,
  throws an exception that a caller can catch, or ends the whole process
  (\<^verbatim>\<open>process.exit(n)\<close>); the three are kept apart.
\<close>

datatype js_error = TypeError string | Error string

datatype 'a outcome = Returns 'a | Throws js_error | Exits nat

text \<open>\<^verbatim>\<open>`${error}`\<close>: the text of an exception.\<close>

fun error_text :: "js_error \<Rightarrow> string" where
  "error_text (TypeError m) = ''TypeError: '' @ m"
| "error_text (Error m) = ''Error: '' @ m"

section \<open>String primitives used by the backend\<close>

text \<open>The character classes \<^verbatim>\<open>\d\<close> and \<^verbatim>\<open>\s\<close> of a JavaScript regular expression.\<close>

definition is_digit :: "char \<Rightarrow> bool" where
  "is_digit c = (c \<in> set ''0123456789'')"

definition is_space :: "char \<Rightarrow> bool" where
  "is_space c =
     (c \<in> set [CHR '' '', CHR 0x09, CHR 0x0A, CHR 0x0B, CHR 0x0C, CHR 0x0D, CHR 0xA0])"

text \<open>\<^verbatim>\<open>s.startsWith(p)\<close> and \<^verbatim>\<open>xs.join(sep)\<close>.\<close>

definition startsWith :: "string \<Rightarrow> string \<Rightarrow> bool" where
  "startsWith p s = (take (length p) s = p)"

fun join :: "string \<Rightarrow> string list \<Rightarrow> string" where
  "join sep [] = []"
| "join sep [x] = x"
| "join sep (x # y # ys) = x @ sep @ join sep (y # ys)"

text \<open>
  \<^verbatim>\<open>s.split(/\s+/)\<close>: the pieces between maximal runs of white space. A run at the start
  or at the end of the string leaves an empty piece there, and the empty string splits
  into one empty piece. The first argument is the piece being read, reversed.
\<close>

function split_ws_from :: "string \<Rightarrow> string \<Rightarrow> string list" where
  "split_ws_from acc [] = [rev acc]"
| "split_ws_from acc (c # cs) =
     (if is_space c then rev acc # split_ws_from [] (dropWhile is_space cs)
      else split_ws_from (c # acc) cs)"
  by pat_completeness auto
termination
  by (relation "measure (\<lambda>(acc, s). length s)")
     (auto simp: less_Suc_eq_le length_dropWhile_le)

definition split_ws :: "string \<Rightarrow> string list" where
  "split_ws s = split_ws_from [] s"

text \<open>
  \<^verbatim>\<open>s.replace(/-0/g, '')\<close>: every occurrence of the two characters \<^verbatim>\<open>-0\<close> is deleted in
  one pass from left to right; the text that a deletion brings together is not scanned
  again.
\<close>

fun strip_dash0 :: "string \<Rightarrow> string" where
  "strip_dash0 (a # b # r) =
     (if a = CHR ''-'' \<and> b = CHR ''0'' then strip_dash0 r else a # strip_dash0 (b # r))"
| "strip_dash0 r = r"

text \<open>
  One attempt of \<^verbatim>\<open>/\d+\.\d+\.\d+/\<close> at the start of a string, giving the matched text
  and what follows it. Each \<^verbatim>\<open>\d+\<close> is greedy and is followed by a character that is
  no digit, so the only run of digits that can lead to a match is the longest one:
  backtracking to a shorter run leaves a digit where the dot is required.
\<close>

definition match_version :: "string \<Rightarrow> (string \<times> string) option" where
  "match_version s =
     (let d1 = takeWhile is_digit s in
      if d1 = [] then None else
      (case dropWhile is_digit s of
         [] \<Rightarrow> None
       | c1 # s2 \<Rightarrow>
           let d2 = takeWhile is_digit s2 in
           if c1 \<noteq> CHR ''.'' \<or> d2 = [] then None else
           (case dropWhile is_digit s2 of
              [] \<Rightarrow> None
            | c2 # s3 \<Rightarrow>
                let d3 = takeWhile is_digit s3 in
                if c2 \<noteq> CHR ''.'' \<or> d3 = [] then None
                else Some (d1 @ ''.'' @ d2 @ ''.'' @ d3, dropWhile is_digit s3))))"

lemma match_version_shorter:
  "match_version s = Some (m, r) \<Longrightarrow> length r < length s"
proof -
  have le: "\<And>xs. length (dropWhile is_digit xs) \<le> length xs"
    by (rule length_dropWhile_le)
  assume "match_version s = Some (m, r)"
  then obtain s2 s3 where
    "dropWhile is_digit s = CHR ''.'' # s2" "dropWhile is_digit s2 = CHR ''.'' # s3"
    "r = dropWhile is_digit s3"
    by (auto simp: match_version_def Let_def split: if_splits list.splits)
  then show ?thesis
    using le[of s] le[of s2] le[of s3] by simp
qed

text \<open>
  \<^verbatim>\<open>s.match(/\d+\.\d+\.\d+/g)\<close>: all matches from left to right. After a match the scan
  goes on behind it; where no match starts, it moves one character on. The empty list
  stands for the \<^verbatim>\<open>null\<close> that \<^verbatim>\<open>match\<close> gives when nothing matches.
\<close>

function match_all :: "string \<Rightarrow> string list" where
  "match_all s =
     (case match_version s of
        Some (m, r) \<Rightarrow> m # match_all r
      | None \<Rightarrow> (case s of [] \<Rightarrow> [] | _ # t \<Rightarrow> match_all t))"
  by pat_completeness auto
termination
  by (relation "measure length") (auto dest: match_version_shorter)

declare match_all.simps [simp del]

section \<open>Version ranges (apiPackage.ts)\<close>

text \<open>
  The two functions of the \<^verbatim>\<open>semver\<close> package that \<^verbatim>\<open>parseVersion\<close> calls are not part
  of the repository; they are a parameter. \<open>Inl\<close> is an exception thrown by the
  package, and \<open>None\<close> from \<open>minVersion\<close> is its \<^verbatim>\<open>null\<close>.
\<close>

record semver_lib =
  toComparators :: "string \<Rightarrow> js_error + string list list"
  minVersion :: "string \<Rightarrow> js_error + string option"

record version_range =
  min_v :: string
  max_v :: string
  minInclusive :: bool
  maxInclusive :: bool

definition getMaxVersion :: "string \<Rightarrow> string outcome" where
  "getMaxVersion versionRange =
     (let versions = match_all (strip_dash0 versionRange) in
      if versions \<noteq> [] then Returns (last versions) else Exits 1)"

text \<open>
  The range text that \<^verbatim>\<open>parseVersion\<close> builds from the comparators: those of one
  alternative joined by a space, the alternatives joined by \<^verbatim>\<open> || \<close>.
\<close>

definition validRange_of :: "string list list \<Rightarrow> string" where
  "validRange_of comparators = join '' || '' (map (join '' '') comparators)"

text \<open>
  \<^verbatim>\<open>semver.minVersion(validRange)?.version\<close> is \<^verbatim>\<open>undefined\<close> when the package answers
  \<^verbatim>\<open>null\<close>, so the test against \<^verbatim>\<open>null\<close> never fires and the test against
  \<^verbatim>\<open>undefined\<close> ends the process. Reading \<^verbatim>\<open>tokens[1]\<close> of a one-element array would
  give \<^verbatim>\<open>undefined\<close>, whose \<^verbatim>\<open>startsWith\<close> is a TypeError.
\<close>

definition parseVersion :: "semver_lib \<Rightarrow> string \<Rightarrow> version_range outcome" where
  "parseVersion lib version =
     (case toComparators lib version of
        Inl e \<Rightarrow> Throws e
      | Inr comparators \<Rightarrow>
          let validRange = validRange_of comparators in
          (case minVersion lib validRange of
             Inl e \<Rightarrow> Throws e
           | Inr None \<Rightarrow> Exits 1
           | Inr (Some minVersion') \<Rightarrow>
               (case getMaxVersion validRange of
                  Exits n \<Rightarrow> Exits n
                | Throws e \<Rightarrow> Throws e
                | Returns maxVersion \<Rightarrow>
                    if CHR '' '' \<notin> set validRange then
                      Returns \<lparr>min_v = minVersion', max_v = maxVersion,
                               minInclusive = True, maxInclusive = True\<rparr>
                    else
                      (case split_ws validRange of
                         t0 # t1 # _ \<Rightarrow>
                           Returns \<lparr>min_v = minVersion', max_v = maxVersion,
                                    minInclusive = startsWith ''>='' t0,
                                    maxInclusive = startsWith ''<='' t1\<rparr>
                       | _ \<Rightarrow> Throws (TypeError
                           ''Cannot read properties of undefined (reading 'startsWith')'')))))"

text \<open>
  What the \<^verbatim>\<open>semver\<close> package (version 7) answers at the six range texts used as
  concrete inputs below: \<^verbatim>\<open>toComparators\<close> gives the comparator texts of each
  alternative, \<^verbatim>\<open>minVersion\<close> the lowest version that satisfies the range (the patch
  after the bound for an exclusive lower bound). Every other text is rejected here,
  as the package rejects a malformed range.
\<close>

definition semver_samples :: semver_lib where
  "semver_samples =
     \<lparr>toComparators = (\<lambda>r.
        if r = '''' then Inr [['''']]
        else if r = ''1.2.3'' then Inr [[''1.2.3'']]
        else if r = ''1.2.3-alpha'' then Inr [[''1.2.3-alpha'']]
        else if r = ''>1.2.3'' then Inr [[''>1.2.3'']]
        else if r = ''>=1.0.0 <=2.0.0'' then Inr [[''>=1.0.0'', ''<=2.0.0'']]
        else if r = ''>=1.0.0-0 <=2.0.0'' then Inr [[''>=1.0.0-0'', ''<=2.0.0'']]
        else Inl (TypeError (''Invalid SemVer Range: '' @ r))),
      minVersion = (\<lambda>r.
        if r = '''' then Inr (Some ''0.0.0'')
        else if r = ''1.2.3'' then Inr (Some ''1.2.3'')
        else if r = ''1.2.3-alpha'' then Inr (Some ''1.2.3-alpha'')
        else if r = ''>1.2.3'' then Inr (Some ''1.2.4'')
        else if r = ''>=1.0.0 <=2.0.0'' then Inr (Some ''1.0.0'')
        else if r = ''>=1.0.0-0 <=2.0.0'' then Inr (Some ''1.0.0-0'')
        else Inl (TypeError (''Invalid SemVer Range: '' @ r)))\<rparr>"

text \<open>
  The order of the specification on versions: the major, minor and patch numbers are
  read from the three runs of digits joined by dots at the start of the text and
  compared one after the other. What follows the patch number must be nothing, or a
  pre-release or build suffix (beginning with \<^verbatim>\<open>-\<close> or \<^verbatim>\<open>+\<close>), which the order ignores.
\<close>

definition digits :: "string \<Rightarrow> bool" where
  "digits s = (s \<noteq> [] \<and> list_all is_digit s)"







text \<open>
  Two notions for the statements below: the text of a version with the three given
  components, and a position where a run of digits ends (the end of the string or a
  character that is no digit).
\<close>

definition version_text :: "string \<Rightarrow> string \<Rightarrow> string \<Rightarrow> string" where
  "version_text a b c = a @ ''.'' @ b @ ''.'' @ c"

definition boundary :: "string \<Rightarrow> bool" where
  "boundary r = (case r of [] \<Rightarrow> True | c # _ \<Rightarrow> \<not> is_digit c)"

section \<open>Database queries (prismaCalls.ts)\<close>

text \<open>
  A JavaScript number, as far as the paging arithmetic needs it: a double whose value
  is an integer, \<^verbatim>\<open>NaN\<close> (which \<^verbatim>\<open>parseInt\<close> gives for a text without digits), or an
  infinity (which \<^verbatim>\<open>parseInt\<close> gives for a run of digits too long for a double).
  Fractions do not occur: the offset is a result of \<^verbatim>\<open>parseInt\<close> or the literal 1.
  Every integer below \<open>2^53\<close> in magnitude is a double; the exact difference or product
  of two doubles is rounded to the nearest double, to the one with the even significand
  when two are equally near, and to an infinity from \<open>2^1024\<close> on.
\<close>

datatype js_number = Num int | NaN | Infinity | NegInfinity

function bit_length :: "int \<Rightarrow> nat" where
  "bit_length n = (if n \<le> 0 then 0 else Suc (bit_length (n div 2)))"
  by pat_completeness auto
termination
  by (relation "measure nat") auto

declare bit_length.simps [simp del]

definition to_double :: "int \<Rightarrow> js_number" where
  "to_double n =
     (let m = \<bar>n\<bar> in
      if m < 2 ^ 53 then Num n else
      let ulp = 2 ^ (bit_length m - 53);
          q = m div ulp;
          rest = m mod ulp;
          q' = (if 2 * rest > ulp \<or> (2 * rest = ulp \<and> odd q) then q + 1 else q)
      in if q' * ulp \<ge> 2 ^ 1024 then (if n < 0 then NegInfinity else Infinity)
         else Num (sgn n * (q' * ulp)))"

fun js_sign :: "js_number \<Rightarrow> int" where
  "js_sign (Num a) = sgn a"
| "js_sign Infinity = 1"
| "js_sign NegInfinity = - 1"
| "js_sign NaN = 0"

text \<open>\<^verbatim>\<open>Math.max(x, y)\<close>, \<^verbatim>\<open>x - y\<close> and \<^verbatim>\<open>x * y\<close>.\<close>

fun js_max :: "js_number \<Rightarrow> js_number \<Rightarrow> js_number" where
  "js_max NaN y = NaN"
| "js_max x NaN = NaN"
| "js_max Infinity y = Infinity"
| "js_max x Infinity = Infinity"
| "js_max NegInfinity y = y"
| "js_max x NegInfinity = x"
| "js_max (Num a) (Num b) = Num (max a b)"

fun js_minus :: "js_number \<Rightarrow> js_number \<Rightarrow> js_number" where
  "js_minus NaN y = NaN"
| "js_minus x NaN = NaN"
| "js_minus (Num a) (Num b) = to_double (a - b)"
| "js_minus Infinity Infinity = NaN"
| "js_minus NegInfinity NegInfinity = NaN"
| "js_minus Infinity y = Infinity"
| "js_minus NegInfinity y = NegInfinity"
| "js_minus x Infinity = NegInfinity"
| "js_minus x NegInfinity = Infinity"

fun js_times :: "js_number \<Rightarrow> js_number \<Rightarrow> js_number" where
  "js_times NaN y = NaN"
| "js_times x NaN = NaN"
| "js_times (Num a) (Num b) = to_double (a * b)"
| "js_times x y =
     (if js_sign x * js_sign y = 0 then NaN
      else if js_sign x * js_sign y > 0 then Infinity else NegInfinity)"

text \<open>
  The argument of \<^verbatim>\<open>prisma.packageMetadata.findMany\<close>. The \<^verbatim>\<open>version\<close> entry of the
  \<^verbatim>\<open>where\<close> object is itself an object from comparator keys (\<^verbatim>\<open>gte\<close>, \<^verbatim>\<open>gt\<close>,
  \<^verbatim>\<open>lte\<close>, \<^verbatim>\<open>lt\<close>) to bounds, kept here in the order in which the keys are written.
  The \<^verbatim>\<open>name\<close> entry is absent, a value to be equal to (which may be \<^verbatim>\<open>undefined\<close>,
  here \<open>None\<close>), or a \<^verbatim>\<open>contains\<close> condition.
\<close>

datatype cmp_op = Gte | Gt | Lte | Lt

datatype name_cond = Equals "string option" | Contains string

record where_condition =
  where_version :: "(cmp_op \<times> string) list option"
  where_name :: "name_cond option"

record find_args =
  where_arg :: where_condition
  skip_arg :: "js_number option"
  take_arg :: "js_number option"

record metadata_row =
  row_name :: string
  row_version :: string
  row_id :: string

text \<open>
  A promise either settles, some milliseconds after the call that made it, with a value
  (\<open>Inr\<close>) or a rejection (\<open>Inl\<close>), or stays pending for ever. The database client is a
  parameter: a function from the query to the promise of its rows.
\<close>

datatype 'a promise = Settles nat "js_error + 'a" | Pending

type_synonym database = "find_args \<Rightarrow> metadata_row list promise"

definition getMetaDataByQuery_args ::
  "string option \<Rightarrow> string \<Rightarrow> string \<Rightarrow> bool \<Rightarrow> bool \<Rightarrow> js_number \<Rightarrow> find_args" where
  "getMetaDataByQuery_args queryName minVersion' maxVersion minInclusive' maxInclusive' offset =
     (let page = js_max (Num 1) offset;
          pageSize = Num 10;
          recordsToSkip = js_times (js_minus page (Num 1)) pageSize;
          whereCondition =
            \<lparr>where_version = Some [(if minInclusive' then Gte else Gt, maxVersion),
                                   (if maxInclusive' then Lte else Lt, minVersion')],
             where_name = None\<rparr>;
          whereCondition' =
            (if queryName \<noteq> Some ''*''
             then whereCondition\<lparr>where_name := Some (Equals queryName)\<rparr>
             else whereCondition)
      in \<lparr>where_arg = whereCondition', skip_arg = Some recordsToSkip,
          take_arg = Some pageSize\<rparr>)"

text \<open>
  \<^verbatim>\<open>getMetaDataByQuery\<close> awaits the database: it is done when the database is, with
  the rows, or with \<^verbatim>\<open>null\<close> (\<open>None\<close>) when the query was rejected.
\<close>

definition getMetaDataByQuery ::
  "database \<Rightarrow> string option \<Rightarrow> string \<Rightarrow> string \<Rightarrow> bool \<Rightarrow> bool \<Rightarrow> js_number
   \<Rightarrow> metadata_row list option promise" where
  "getMetaDataByQuery findMany queryName minVersion' maxVersion minInclusive' maxInclusive' offset =
     (case findMany (getMetaDataByQuery_args queryName minVersion' maxVersion
                       minInclusive' maxInclusive' offset) of
        Settles t (Inr packages) \<Rightarrow> Settles t (Inr (Some packages))
      | Settles t (Inl e) \<Rightarrow> Settles t (Inr None)
      | Pending \<Rightarrow> Pending)"

text \<open>
  \<^verbatim>\<open>getMetaDataByRegEx\<close> races the query against a timer of 5000 milliseconds that
  rejects. The timer is set before the query is sent, so a reply that is not there before
  the timer fires loses the race; the rejection is caught and \<^verbatim>\<open>null\<close> returned.
\<close>

definition getMetaDataByRegEx_args :: "string \<Rightarrow> find_args" where
  "getMetaDataByRegEx_args regEx =
     \<lparr>where_arg = \<lparr>where_version = None, where_name = Some (Contains regEx)\<rparr>,
      skip_arg = None, take_arg = None\<rparr>"

definition getMetaDataByRegEx :: "database \<Rightarrow> string \<Rightarrow> metadata_row list option promise" where
  "getMetaDataByRegEx findMany regEx =
     (case findMany (getMetaDataByRegEx_args regEx) of
        Settles t result \<Rightarrow>
          if t < 5000 then
            (case result of
               Inr packages \<Rightarrow> Settles t (Inr (Some packages))
             | Inl e \<Rightarrow> Settles t (Inr None))
          else Settles 5000 (Inr None)
      | Pending \<Rightarrow> Settles 5000 (Inr None))"

section \<open>The query handler (apiPackage.ts)\<close>

text \<open>
  A request carries the \<^verbatim>\<open>offset\<close> parameter of the query string, if any, and the
  fields of the body that hold strings, as the casts of the handler take them to be; a
  body that is missing has no field. What a handler does is to send one response, to
  never answer, or to end the process.
\<close>

record request =
  query_offset :: "string option"
  body :: "string \<rightharpoonup> string"

text \<open>
  A value read from a parsed JSON document. The metadata of a package carries a name
  and a version: texts when they come from the database, and whatever the manifest held
  (possibly nothing) when they come from an uploaded archive.
\<close>

datatype json =
    JNull | JBool bool | JNum int | JStr string | JArr "json list"
  | JObj "(string \<times> json) list"

record 'a api_metadata =
  Name :: 'a
  Version :: 'a
  ID :: string

record package_data =
  Content :: string
  JSProgram :: string

datatype payload =
    Text string
  | MetadataJson "string api_metadata list"
  | PackageJson "json option api_metadata" package_data

record response =
  status :: nat
  payload :: payload
  headers :: "(string \<times> js_number) list"

datatype handler_result = Responds response | Hangs | Terminates nat

text \<open>
  What the handler needs from outside the repository: the \<^verbatim>\<open>semver\<close> package, the
  built-in \<^verbatim>\<open>parseInt\<close>, and the database client.
\<close>

record backend =
  semver :: semver_lib
  parseInt :: "string \<Rightarrow> js_number"
  findMany :: database

definition send :: "nat \<Rightarrow> string \<Rightarrow> handler_result" where
  "send code text = Responds \<lparr>status = code, payload = Text text, headers = []\<rparr>"

text \<open>The part of \<^verbatim>\<open>getPackages\<close> behind the \<^verbatim>\<open>await\<close> of the database query.\<close>

definition getPackages_reply ::
  "js_number \<Rightarrow> metadata_row list option promise \<Rightarrow> handler_result" where
  "getPackages_reply offset dbPackageMetaData =
     (case dbPackageMetaData of
        Pending \<Rightarrow> Hangs
      | Settles t (Inl e) \<Rightarrow> send 500 (''Error in getPackageMetaData: '' @ error_text e)
      | Settles t (Inr None) \<Rightarrow>
          send 500 ''Error in getPackageMetaData: packageMetaData is null''
      | Settles t (Inr (Some rows)) \<Rightarrow>
          Responds \<lparr>status = 200,
                    payload = MetadataJson
                      (map (\<lambda>r. \<lparr>Name = row_name r, Version = row_version r, ID = row_id r\<rparr>)
                         rows),
                    headers = [(''offset'', offset)]\<rparr>)"

definition getPackages :: "backend \<Rightarrow> request \<Rightarrow> handler_result" where
  "getPackages env req =
     (let offset = (case query_offset req of None \<Rightarrow> Num 1 | Some s \<Rightarrow> parseInt env s) in
      if body req ''Name'' = None then
        send 400 ''Error in getPackageMetaData: Name is undefined''
      else
        (case body req ''Version'' of
           None \<Rightarrow> send 400 ''Error in getPackageMetaData: Version is undefined''
         | Some version \<Rightarrow>
             let queryName = body req ''name'' in
             (case parseVersion (semver env) version of
                Throws e \<Rightarrow> send 500 (''Error in getPackageMetaData: '' @ error_text e)
              | Exits n \<Rightarrow> Terminates n
              | Returns r \<Rightarrow>
                  getPackages_reply offset
                    (getMetaDataByQuery (findMany env) queryName (min_v r) (max_v r)
                       (minInclusive r) (maxInclusive r) offset))))"

text \<open>
  Sample collaborators for the concrete cases below: a database that answers every
  query with no rows after six seconds, one that never answers, and a request that names
  its package in the field \<^verbatim>\<open>Name\<close> only.
\<close>

definition slow_database :: database where
  "slow_database q = Settles 6000 (Inr [])"

definition silent_database :: database where
  "silent_database q = Pending"

definition sample_backend :: backend where
  "sample_backend =
     \<lparr>semver = semver_samples, parseInt = (\<lambda>s. NaN), findMany = slow_database\<rparr>"

definition sample_request :: request where
  "sample_request =
     \<lparr>query_offset = None, body = [''Name'' \<mapsto> ''*'', ''Version'' \<mapsto> ''1.2.3'']\<rparr>"

text \<open>
  Further samples: a database that answers with one row after twenty milliseconds, one
  that rejects every query after twenty milliseconds, a request without a version, and a
  request whose version is the empty text.
\<close>

definition fast_database :: database where
  "fast_database q =
     Settles 20 (Inr [\<lparr>row_name = ''widget'', row_version = ''1.2.3'', row_id = ''id-1''\<rparr>])"

definition failing_database :: database where
  "failing_database q = Settles 20 (Inl (Error ''Connection lost''))"

definition name_only_request :: request where
  "name_only_request = \<lparr>query_offset = None, body = [''Name'' \<mapsto> ''widget'']\<rparr>"

definition empty_version_request :: request where
  "empty_version_request =
     \<lparr>query_offset = None, body = [''Name'' \<mapsto> ''widget'', ''Version'' \<mapsto> '''']\<rparr>"

section \<open>Repository addresses (apiPackage.ts)\<close>

text \<open>
  One attempt of \<^verbatim>\<open>/github\.com[/:]([^/]+)\/([^/.]+)(\.git)?/\<close> at the start of a string,
  giving the two groups. The first group is greedy and must be followed by a slash, so
  it is the whole run up to the next slash; the second is the whole run up to the next
  slash or dot, and the optional third group never makes the attempt fail.
\<close>

definition match_github_at :: "string \<Rightarrow> (string \<times> string) option" where
  "match_github_at s =
     (if \<not> prefix ''github.com'' s then None else
      (case drop 10 s of
         [] \<Rightarrow> None
       | sep # r \<Rightarrow>
           let g1 = takeWhile (\<lambda>c. c \<noteq> CHR ''/'') r in
           if (sep \<noteq> CHR ''/'' \<and> sep \<noteq> CHR '':'') \<or> g1 = [] then None else
           (case dropWhile (\<lambda>c. c \<noteq> CHR ''/'') r of
              [] \<Rightarrow> None
            | slash # r2 \<Rightarrow>
                let g2 = takeWhile (\<lambda>c. c \<noteq> CHR ''/'' \<and> c \<noteq> CHR ''.'') r2 in
                if g2 = [] then None else Some (g1, g2))))"

text \<open>\<^verbatim>\<open>url.match(regex)\<close>: the attempt at the leftmost position that succeeds.\<close>

fun match_github :: "string \<Rightarrow> (string \<times> string) option" where
  "match_github [] = match_github_at []"
| "match_github (c # cs) =
     (case match_github_at (c # cs) of
        Some groups \<Rightarrow> Some groups
      | None \<Rightarrow> match_github cs)"

text \<open>\<^verbatim>\<open>s.replace(pat, rep)\<close> with a text as pattern: the first occurrence is replaced.\<close>

fun replace_first :: "string \<Rightarrow> string \<Rightarrow> string \<Rightarrow> string" where
  "replace_first pat rep [] = (if pat = [] then rep else [])"
| "replace_first pat rep (c # cs) =
     (if prefix pat (c # cs) then rep @ drop (length pat) (c # cs)
      else c # replace_first pat rep cs)"

record github_info =
  owner :: string
  repo :: string

definition parseGitHubUrl :: "string \<Rightarrow> github_info option" where
  "parseGitHubUrl url =
     (case match_github url of
        None \<Rightarrow> None
      | Some (g1, g2) \<Rightarrow>
          if g1 \<noteq> [] \<and> g2 \<noteq> []
          then Some \<lparr>owner = g1, repo = replace_first ''.git'' '''' g2\<rparr>
          else None)"

text \<open>
  The shape the expression looks for, anywhere in the text: \<^verbatim>\<open>github.com\<close>, a slash or a
  colon, an owner without slash, a slash, and a repository name that begins with a
  character other than slash and dot.
\<close>

definition github_shaped :: "string \<Rightarrow> bool" where
  "github_shaped url =
     (\<exists>pre sep own c rest.
        url = pre @ ''github.com'' @ [sep] @ own @ ''/'' @ [c] @ rest
        \<and> (sep = CHR ''/'' \<or> sep = CHR '':'')
        \<and> own \<noteq> [] \<and> CHR ''/'' \<notin> set own \<and> c \<noteq> CHR ''/'' \<and> c \<noteq> CHR ''.'')"

text \<open>
  The host of an address, in the words of the specification: what stands between the
  \<^verbatim>\<open>://\<close> of the scheme and the next slash.
\<close>

fun after_scheme :: "string \<Rightarrow> string" where
  "after_scheme (a # b # c # r) =
     (if a = CHR '':'' \<and> b = CHR ''/'' \<and> c = CHR ''/'' then r else after_scheme (b # c # r))"
| "after_scheme r = []"

definition url_host :: "string \<Rightarrow> string" where
  "url_host url = takeWhile (\<lambda>c. c \<noteq> CHR ''/'') (after_scheme url)"

section \<open>Package upload (apiPackage.ts, prismaCalls.ts)\<close>

text \<open>
  Reading a property: of \<^verbatim>\<open>null\<close> it throws, of an object it gives the entry or
  \<^verbatim>\<open>undefined\<close> (\<open>None\<close>), of any other JSON value \<^verbatim>\<open>undefined\<close>. \<open>truthy\<close> is the test
  that \<^verbatim>\<open>||\<close> and \<^verbatim>\<open>!\<close> apply.
\<close>

fun get_prop :: "json \<Rightarrow> string \<Rightarrow> js_error + json option" where
  "get_prop JNull key =
     Inl (TypeError (''Cannot read properties of null (reading '' @ key @ '')''))"
| "get_prop (JObj entries) key = Inr (map_of entries key)"
| "get_prop _ key = Inr None"

fun truthy :: "json option \<Rightarrow> bool" where
  "truthy None = False"
| "truthy (Some JNull) = False"
| "truthy (Some (JBool b)) = b"
| "truthy (Some (JNum n)) = (n \<noteq> 0)"
| "truthy (Some (JStr s)) = (s \<noteq> [])"
| "truthy (Some _) = True"

fun message :: "js_error \<Rightarrow> string" where
  "message (TypeError m) = m"
| "message (Error m) = m"

text \<open>
  The tables of the database and the object store. A history entry also holds the date
  of its creation, which no statement below depends on and which is left out.
\<close>

datatype action = CREATE

record history_row =
  h_metadataId :: string
  h_userId :: nat
  h_action :: action

record package_rating =
  BusFactor :: real
  Correctness :: real
  RampUp :: real
  ResponsiveMaintainer :: real
  LicenseScore :: real
  GoodPinningPractice :: real
  PullRequest :: real
  NetScore :: real

record rating_row =
  r_metadataId :: string
  r_scores :: package_rating

record world =
  metadata_table :: "metadata_row list"
  history_table :: "history_row list"
  rating_table :: "rating_row list"
  user_ids :: "nat list"
  bucket :: "(string \<times> string) list"

text \<open>
  What an upload needs from outside the repository. \<open>loadAsync\<close> is the archive reader:
  it fails or gives the files of the archive (path and decoded text) in their order.
  \<open>calculate\<close> is the score computation for an owner and a repository, which fetches
  the repository statistics. \<open>rejected\<close> says which calls the database server rejects
  (a lost connection, a violated constraint) and with what error; a call that is not
  rejected does what its name says. \<open>bucket_name\<close> is the value of the environment
  variable that names the bucket, if it is set, \<open>s3_error\<close> the error of the object store, if it reports one.
\<close>

datatype db_call =
  CountHistory | CreateMetadata | FindMetadata | FindUser | CreateHistory | CreateRating

record upload_env =
  loadAsync :: "string \<Rightarrow> js_error + (string \<times> string) list"
  json_parse :: "string \<Rightarrow> js_error + json"
  uuidv4 :: string
  toBase64 :: "string \<Rightarrow> string"
  calculate :: "string \<Rightarrow> string \<Rightarrow> js_error + package_rating"
  rejected :: "db_call \<Rightarrow> js_error option"
  bucket_name :: "string option"
  s3_error :: "js_error option"

record upload_file =
  buffer :: string
  originalname :: string

text \<open>
  The test of the fallback expression \<^verbatim>\<open>new RegExp(`^.*${filename}$`)\<close> on a path, for
  a file name made of letters and dots such as \<^verbatim>\<open>package.json\<close>: a dot of the name
  stands for any character but a line terminator, as does each character before the
  name.
\<close>

definition is_line_terminator :: "char \<Rightarrow> bool" where
  "is_line_terminator c = (c = CHR 0x0A \<or> c = CHR 0x0D)"

fun wild_match :: "string \<Rightarrow> string \<Rightarrow> bool" where
  "wild_match [] [] = True"
| "wild_match (p # ps) (c # cs) =
     ((if p = CHR ''.'' then \<not> is_line_terminator c else p = c) \<and> wild_match ps cs)"
| "wild_match _ _ = False"

definition fallback_test :: "string \<Rightarrow> string \<Rightarrow> bool" where
  "fallback_test filename path =
     (length filename \<le> length path
      \<and> list_all (\<lambda>c. \<not> is_line_terminator c) (take (length path - length filename) path)
      \<and> wild_match filename (drop (length path - length filename) path))"

definition extractFileFromZip :: "upload_env \<Rightarrow> string \<Rightarrow> string \<Rightarrow> js_error + string" where
  "extractFileFromZip env zipBuffer filename =
     (case loadAsync env zipBuffer of
        Inl e \<Rightarrow> Inl e
      | Inr zip' \<Rightarrow>
          let file = map_of zip' filename;
              file' = (if file = None
                       then (case filter (\<lambda>(path, content). fallback_test filename path) zip' of
                               [] \<Rightarrow> None
                             | (path, content) # _ \<Rightarrow> Some content)
                       else file)
          in (case file' of
                None \<Rightarrow> Inl (Error (filename @ '' not found inside the zip.''))
              | Some content \<Rightarrow> Inr content))"

definition strip_git_suffix :: "string \<Rightarrow> string" where
  "strip_git_suffix url = (if suffix ''.git'' url then take (length url - 4) url else url)"

definition getGithubUrlFromZip :: "upload_env \<Rightarrow> string \<Rightarrow> js_error + string" where
  "getGithubUrlFromZip env zipBuffer =
     (if zipBuffer = [] then Inl (Error ''Empty or invalid zip buffer provided'') else
      (case extractFileFromZip env zipBuffer ''package.json'' of
         Inl e \<Rightarrow> Inl e
       | Inr packageJsonString \<Rightarrow>
           if packageJsonString = []
           then Inl (Error ''package.json not found or empty in the zip file'') else
           (case json_parse env packageJsonString of
              Inl e \<Rightarrow> Inl (Error (''Failed to parse package.json: '' @ message e))
            | Inr packageJson \<Rightarrow>
                (case get_prop packageJson ''repository'' of
                   Inl e \<Rightarrow> Inl e
                 | Inr repository \<Rightarrow>
                     let inner = (case repository of
                                    None \<Rightarrow> None
                                  | Some JNull \<Rightarrow> None
                                  | Some r \<Rightarrow> (case get_prop r ''url'' of
                                                Inl e \<Rightarrow> None | Inr u \<Rightarrow> u));
                         url = (if truthy inner then inner else repository)
                     in (case url of
                           Some (JStr u) \<Rightarrow>
                             if u = []
                             then Inl (Error ''GitHub repository URL not found in package.json'')
                             else Inr (strip_git_suffix
                                         (if startsWith ''github:'' u
                                          then ''https://github.com/'' @ drop 7 u else u))
                         | _ \<Rightarrow>
                             Inl (Error ''GitHub repository URL not found in package.json''))))))"

definition extractMetadataFromZip ::
  "upload_env \<Rightarrow> string \<Rightarrow> js_error + json option api_metadata" where
  "extractMetadataFromZip env filebuffer =
     (case extractFileFromZip env filebuffer ''package.json'' of
        Inl e \<Rightarrow> Inl e
      | Inr packageContent \<Rightarrow>
          (case json_parse env packageContent of
             Inl e \<Rightarrow> Inl e
           | Inr packageJson \<Rightarrow>
               (case get_prop packageJson ''name'' of
                  Inl e \<Rightarrow> Inl e
                | Inr name \<Rightarrow>
                    (case get_prop packageJson ''version'' of
                       Inl e \<Rightarrow> Inl e
                     | Inr version \<Rightarrow>
                         Inr \<lparr>Name = name, Version = version, ID = uuidv4 env\<rparr>))))"

definition checkPackageHistoryExists :: "upload_env \<Rightarrow> string \<Rightarrow> world \<Rightarrow> js_error + bool" where
  "checkPackageHistoryExists env metadataId w =
     (case rejected env CountHistory of
        Some e \<Rightarrow> Inl e
      | None \<Rightarrow> Inr (length (filter (\<lambda>h. h_metadataId h = metadataId) (history_table w)) > 0))"

text \<open>
  Modelled from the spec: the database schema is not among the sources. The
  specification gives a stored package as a name and a version that are texts and an
  identity, so the creation of a row whose name or version is no text is rejected.
\<close>

definition uploadMetadataToDatabase ::
  "upload_env \<Rightarrow> json option api_metadata \<Rightarrow> world \<Rightarrow> js_error + world" where
  "uploadMetadataToDatabase env metadata w =
     (case (rejected env CreateMetadata, Name metadata, Version metadata) of
        (None, Some (JStr n), Some (JStr v)) \<Rightarrow>
          Inr (w\<lparr>metadata_table := metadata_table w
                   @ [\<lparr>row_name = n, row_version = v, row_id = ID metadata\<rparr>]\<rparr>)
      | _ \<Rightarrow> Inl (Error ''Failed to upload metadata to the database.''))"

definition createPackageHistoryEntry ::
  "upload_env \<Rightarrow> string \<Rightarrow> nat \<Rightarrow> action \<Rightarrow> world \<Rightarrow> js_error + world" where
  "createPackageHistoryEntry env metadataId userId act w =
     (if rejected env FindMetadata = None
         \<and> list_ex (\<lambda>m. row_id m = metadataId) (metadata_table w)
         \<and> rejected env FindUser = None
         \<and> List.member (user_ids w) userId
         \<and> rejected env CreateHistory = None
      then Inr (w\<lparr>history_table := history_table w
                    @ [\<lparr>h_metadataId = metadataId, h_userId = userId, h_action = act\<rparr>]\<rparr>)
      else Inl (Error ''Failed to create package history entry in the database.''))"

definition storeMetricsInDatabase ::
  "upload_env \<Rightarrow> string \<Rightarrow> package_rating \<Rightarrow> world \<Rightarrow> js_error + world" where
  "storeMetricsInDatabase env metadataId packageRating w =
     (case rejected env CreateRating of
        Some e \<Rightarrow> Inl (Error ''Failed to store package rating metrics in the database.'')
      | None \<Rightarrow>
          Inr (w\<lparr>rating_table := rating_table w
                   @ [\<lparr>r_metadataId = metadataId, r_scores = packageRating\<rparr>]\<rparr>))"

text \<open>
  \<^verbatim>\<open>calculateAndStoreGithubMetrics\<close> catches whatever the computation or the storing
  throws and only logs it: it always returns, with the world as the failed step left it.
\<close>

definition calculateAndStoreGithubMetrics ::
  "upload_env \<Rightarrow> string \<Rightarrow> string \<Rightarrow> string \<Rightarrow> world \<Rightarrow> world" where
  "calculateAndStoreGithubMetrics env metadataId owner' repo' w =
     (case calculate env owner' repo' of
        Inl e \<Rightarrow> w
      | Inr scores \<Rightarrow>
          (case storeMetricsInDatabase env metadataId scores w of
             Inl e \<Rightarrow> w
           | Inr w' \<Rightarrow> w'))"

text \<open>
  \<^verbatim>\<open>uploadToS3\<close> rejects when the bucket name is missing or empty (the test
  \<^verbatim>\<open>!bucketName\<close>) and when the object store reports an error.
\<close>

definition uploadToS3 :: "upload_env \<Rightarrow> string \<Rightarrow> string \<Rightarrow> world \<Rightarrow> js_error + world" where
  "uploadToS3 env fileName fileBuffer w =
     (case bucket_name env of
        None \<Rightarrow> Inl (Error ''S3 bucket name not configured.'')
      | Some bucketName \<Rightarrow>
          if bucketName = [] then Inl (Error ''S3 bucket name not configured.'')
          else
            (case s3_error env of
               Some err \<Rightarrow> Inl err
             | None \<Rightarrow> Inr (w\<lparr>bucket := bucket w @ [(fileName, fileBuffer)]\<rparr>)))"

definition jsProgram :: string where
  "jsProgram = ''if (process.argv.length === 7) {'' @ [CHR 0x0A] @ ''console.log('Success')''
     @ [CHR 0x0A] @ ''process.exit(0)'' @ [CHR 0x0A] @ ''} else {'' @ [CHR 0x0A]
     @ ''console.log('Failed')'' @ [CHR 0x0A] @ ''process.exit(1)'' @ [CHR 0x0A] @ ''}''
     @ [CHR 0x0A]"

definition internal_error :: handler_result where
  "internal_error = send 500 ''Internal Server Error''"

text \<open>
  The handler of an upload, on the world before it; it gives its answer and the world
  after it. Every exception inside is caught at the end and answered with status 500.
\<close>

definition uploadPackage ::
  "upload_env \<Rightarrow> upload_file option \<Rightarrow> world \<Rightarrow> handler_result \<times> world" where
  "uploadPackage env file w =
     (case file of
        None \<Rightarrow> (send 400 ''No file uploaded'', w)
      | Some f \<Rightarrow>
     (case extractMetadataFromZip env (buffer f) of
        Inl e \<Rightarrow> (internal_error, w)
      | Inr metadata \<Rightarrow>
     (case getGithubUrlFromZip env (buffer f) of
        Inl e \<Rightarrow> (internal_error, w)
      | Inr url \<Rightarrow>
     (case parseGitHubUrl url of
        None \<Rightarrow> (send 400 ''Invalid GitHub repository URL.'', w)
      | Some githubInfo \<Rightarrow>
     (case checkPackageHistoryExists env (ID metadata) w of
        Inl e \<Rightarrow> (internal_error, w)
      | Inr True \<Rightarrow> (send 409 ''Package Exists Already'', w)
      | Inr False \<Rightarrow>
     (case uploadMetadataToDatabase env metadata w of
        Inl e \<Rightarrow> (internal_error, w)
      | Inr w1 \<Rightarrow>
     (case createPackageHistoryEntry env (ID metadata) 1 CREATE w1 of
        Inl e \<Rightarrow> (internal_error, w1)
      | Inr w2 \<Rightarrow>
          let w3 = calculateAndStoreGithubMetrics env (ID metadata)
                     (owner githubInfo) (repo githubInfo) w2
          in (case uploadToS3 env (originalname f) (buffer f) w3 of
                Inl e \<Rightarrow> (internal_error, w3)
              | Inr w4 \<Rightarrow>
                  (Responds \<lparr>status = 200,
                             payload = PackageJson metadata
                               \<lparr>Content = toBase64 env (buffer f), JSProgram = jsProgram\<rparr>,
                             headers = []\<rparr>, w4)))))))))"

text \<open>
  Sample collaborators for the concrete cases below. The archive \<^verbatim>\<open>PK-widget\<close> holds
  the manifest of the package \<^verbatim>\<open>widget\<close> in a folder, the archive \<^verbatim>\<open>PK-readme\<close> holds
  no manifest, the archive \<^verbatim>\<open>PK-lookalike\<close> holds the same text under the name
  \<^verbatim>\<open>packageXjson\<close>; the score computation fails, as it does when the statistics of the
  repository cannot be fetched; the database rejects nothing and has the user 1.
\<close>

definition sample_manifest :: json where
  "sample_manifest =
     JObj [(''name'', JStr ''widget''), (''version'', JStr ''1.2.3''),
           (''repository'', JStr ''github:acme/widget'')]"

definition sample_upload_env :: upload_env where
  "sample_upload_env =
     \<lparr>loadAsync = (\<lambda>b.
        if b = ''PK-widget'' then Inr [(''widget/package.json'', ''{widget}'')]
        else if b = ''PK-readme'' then Inr [(''README.md'', ''hello'')]
        else if b = ''PK-lookalike'' then Inr [(''packageXjson'', ''{widget}'')]
        else Inl (Error ''Corrupted zip'')),
      json_parse = (\<lambda>s.
        if s = ''{widget}'' then Inr sample_manifest
        else Inl (Error ''Unexpected token'')),
      uuidv4 = ''id-1'',
      toBase64 = (\<lambda>b. b),
      calculate = (\<lambda>owner' repo'. Inl (Error ''Request failed with status code 403'')),
      rejected = (\<lambda>c. None),
      bucket_name = Some ''packages'',
      s3_error = None\<rparr>"

definition sample_world :: world where
  "sample_world =
     \<lparr>metadata_table = [], history_table = [], rating_table = [], user_ids = [1],
      bucket = []\<rparr>"

definition widget_file :: upload_file where
  "widget_file = \<lparr>buffer = ''PK-widget'', originalname = ''widget.zip''\<rparr>"

definition readme_file :: upload_file where
  "readme_file = \<lparr>buffer = ''PK-readme'', originalname = ''readme.zip''\<rparr>"

definition lookalike_file :: upload_file where
  "lookalike_file = \<lparr>buffer = ''PK-lookalike'', originalname = ''lookalike.zip''\<rparr>"

text \<open>
  A manifest entry in the words of the specification: an entry whose path is, or ends
  in, the name of the manifest. The second notion is wider: the path ends in
  \<^verbatim>\<open>package\<close>, one more character, and \<^verbatim>\<open>json\<close>.
\<close>

definition is_manifest_entry :: "string \<Rightarrow> bool" where
  "is_manifest_entry path = suffix ''package.json'' path"

definition manifest_lookalike :: "string \<Rightarrow> bool" where
  "manifest_lookalike path =
     (12 \<le> length path
      \<and> take 7 (drop (length path - 12) path) = ''package''
      \<and> drop (length path - 4) path = ''json'')"

section \<open>Properties of the scanning functions\<close>


lemma not_digit_simps:
  "\<not> is_digit CHR ''.''" "\<not> is_digit CHR ''>''" "\<not> is_digit CHR ''<''"
  "\<not> is_digit CHR ''=''" "\<not> is_digit CHR '' ''" "\<not> is_digit CHR ''-''"
  by (simp_all add: is_digit_def)

lemma digit_not_space: "is_digit c \<Longrightarrow> \<not> is_space c"
  by (auto simp: is_digit_def is_space_def)

lemma digit_not_dash: "is_digit c \<Longrightarrow> c \<noteq> CHR ''-''"
  by (auto simp: is_digit_def)

lemma match_version_nondigit: "\<not> is_digit c \<Longrightarrow> match_version (c # s) = None"
  by (simp add: match_version_def)

lemma match_version_Nil: "match_version [] = None"
  by (simp add: match_version_def)

lemma match_all_Nil: "match_all [] = []"
  by (simp add: match_all.simps match_version_Nil)

lemma match_all_nondigit: "\<not> is_digit c \<Longrightarrow> match_all (c # s) = match_all s"
  by (subst match_all.simps) (simp add: match_version_nondigit)

lemma takeWhile_digits_dot:
  "digits a \<Longrightarrow> takeWhile is_digit (a @ CHR ''.'' # r) = a"
  by (simp add: digits_def list_all_iff takeWhile_append2 not_digit_simps)

lemma dropWhile_digits_dot:
  "digits a \<Longrightarrow> dropWhile is_digit (a @ CHR ''.'' # r) = CHR ''.'' # r"
  by (simp add: digits_def list_all_iff dropWhile_append2 not_digit_simps)

lemma takeWhile_digits_boundary:
  "digits a \<Longrightarrow> boundary r \<Longrightarrow> takeWhile is_digit (a @ r) = a"
  by (cases r) (simp_all add: digits_def list_all_iff takeWhile_append2 boundary_def)

lemma dropWhile_digits_boundary:
  "digits a \<Longrightarrow> boundary r \<Longrightarrow> dropWhile is_digit (a @ r) = r"
  by (cases r) (simp_all add: digits_def list_all_iff dropWhile_append2 boundary_def)

lemma match_version_token:
  assumes "digits a" "digits b" "digits c" "boundary r"
  shows "match_version (a @ ''.'' @ b @ ''.'' @ c @ r) = Some (a @ ''.'' @ b @ ''.'' @ c, r)"
proof -
  have a: "a \<noteq> []" and b: "b \<noteq> []" and c: "c \<noteq> []"
    using assms by (simp_all add: digits_def)
  show ?thesis
    using a b c
    by (simp add: match_version_def takeWhile_digits_dot dropWhile_digits_dot
        takeWhile_digits_boundary dropWhile_digits_boundary assms)
qed

lemma match_all_token:
  assumes "digits a" "digits b" "digits c" "boundary r"
  shows "match_all (a @ ''.'' @ b @ ''.'' @ c @ r) = (a @ ''.'' @ b @ ''.'' @ c) # match_all r"
  by (subst match_all.simps) (simp add: match_version_token[OF assms, simplified])


lemma strip_dash0_no_dash: "CHR ''-'' \<notin> set s \<Longrightarrow> strip_dash0 s = s"
  by (induction s rule: strip_dash0.induct) auto

lemma strip_dash0_append:
  "CHR ''-'' \<notin> set x \<Longrightarrow> strip_dash0 (x @ y) = x @ strip_dash0 y"
proof (induction x)
  case Nil
  then show ?case by simp
next
  case (Cons a x)
  then show ?case by (cases "x @ y") auto
qed

lemma digits_no_dash: "digits a \<Longrightarrow> CHR ''-'' \<notin> set a"
  by (auto simp: digits_def list_all_iff dest: digit_not_dash)

lemma digits_no_space: "digits a \<Longrightarrow> \<forall>c\<in>set a. \<not> is_space c"
  by (auto simp: digits_def list_all_iff dest: digit_not_space)

lemma split_ws_from_no_space:
  "\<forall>c\<in>set x. \<not> is_space c \<Longrightarrow> split_ws_from acc x = [rev acc @ x]"
  by (induction x arbitrary: acc) auto

lemma split_ws_from_space:
  "\<forall>c\<in>set x. \<not> is_space c \<Longrightarrow> is_space d \<Longrightarrow>
   split_ws_from acc (x @ d # y) = (rev acc @ x) # split_ws_from [] (dropWhile is_space y)"
  by (induction x arbitrary: acc) auto

lemma version_text_no_dash:
  "digits a \<Longrightarrow> digits b \<Longrightarrow> digits c \<Longrightarrow> CHR ''-'' \<notin> set (version_text a b c)"
  by (simp add: version_text_def digits_no_dash)

lemma dot_not_space: "\<not> is_space CHR ''.''"
  by (simp add: is_space_def)

lemma version_text_no_space:
  assumes "digits a" "digits b" "digits c"
  shows "\<forall>ch\<in>set (version_text a b c). \<not> is_space ch"
proof
  fix ch assume "ch \<in> set (version_text a b c)"
  then have "ch \<in> set a \<or> ch \<in> set b \<or> ch \<in> set c \<or> ch = CHR ''.''"
    by (auto simp: version_text_def)
  then show "\<not> is_space ch"
    using digits_no_space[OF assms(1)] digits_no_space[OF assms(2)]
      digits_no_space[OF assms(3)] dot_not_space by blast
qed

lemma match_all_version_text:
  "digits a \<Longrightarrow> digits b \<Longrightarrow> digits c \<Longrightarrow> boundary r \<Longrightarrow>
   match_all (version_text a b c @ r) = version_text a b c # match_all r"
  using match_all_token[of a b c r] by (simp add: version_text_def)


lemma boundary_simps: "boundary []" "boundary (CHR '' '' # r)" "boundary (CHR ''-'' # r)"
  by (simp_all add: boundary_def not_digit_simps)

lemma match_all_closed_range:
  assumes "digits a" "digits b" "digits c" "digits a'" "digits b'" "digits c'"
  shows "match_all (''>='' @ version_text a b c @ '' <='' @ version_text a' b' c') =
         [version_text a b c, version_text a' b' c']"
proof -
  have "match_all (version_text a' b' c') = [version_text a' b' c']"
    using match_all_version_text[OF assms(4-6), of "[]"]
    by (simp add: boundary_simps match_all_Nil)
  then have "match_all ('' <='' @ version_text a' b' c') = [version_text a' b' c']"
    by (simp add: match_all_nondigit not_digit_simps)
  then have "match_all (version_text a b c @ '' <='' @ version_text a' b' c') =
             [version_text a b c, version_text a' b' c']"
    using match_all_version_text[OF assms(1-3), of "'' <='' @ version_text a' b' c'"]
    by (simp add: boundary_simps)
  then show ?thesis
    by (simp add: match_all_nondigit not_digit_simps)
qed

lemma strip_dash0_closed_range:
  assumes "digits a" "digits b" "digits c" "digits a'" "digits b'" "digits c'"
  shows "strip_dash0 (''>='' @ version_text a b c @ '' <='' @ version_text a' b' c') =
         ''>='' @ version_text a b c @ '' <='' @ version_text a' b' c'"
  by (rule strip_dash0_no_dash)
     (simp add: version_text_no_dash[OF assms(1-3)] version_text_no_dash[OF assms(4-6)])

lemma strip_dash0_closed_range_dash0:
  assumes "digits a" "digits b" "digits c" "digits a'" "digits b'" "digits c'"
  shows "strip_dash0 (''>='' @ version_text a b c @ ''-0 <='' @ version_text a' b' c') =
         ''>='' @ version_text a b c @ '' <='' @ version_text a' b' c'"
proof -
  have "strip_dash0 ((''>='' @ version_text a b c) @ ''-0 <='' @ version_text a' b' c') =
        (''>='' @ version_text a b c) @ strip_dash0 (''-0 <='' @ version_text a' b' c')"
    by (rule strip_dash0_append) (simp add: version_text_no_dash[OF assms(1-3)])
  moreover have "strip_dash0 (''-0 <='' @ version_text a' b' c') = '' <='' @ version_text a' b' c'"
    using strip_dash0_no_dash[of "'' <='' @ version_text a' b' c'"]
    by (simp add: version_text_no_dash[OF assms(4-6)])
  ultimately show ?thesis by simp
qed

lemma getMaxVersion_closed_range:
  assumes "digits a" "digits b" "digits c" "digits a'" "digits b'" "digits c'"
  shows "getMaxVersion (''>='' @ version_text a b c @ '' <='' @ version_text a' b' c') =
         Returns (version_text a' b' c')"
  by (simp only: getMaxVersion_def strip_dash0_closed_range[OF assms]
      match_all_closed_range[OF assms] Let_def) simp

lemma getMaxVersion_closed_range_dash0:
  assumes "digits a" "digits b" "digits c" "digits a'" "digits b'" "digits c'"
  shows "getMaxVersion (''>='' @ version_text a b c @ ''-0 <='' @ version_text a' b' c') =
         Returns (version_text a' b' c')"
  by (simp only: getMaxVersion_def strip_dash0_closed_range_dash0[OF assms]
      match_all_closed_range[OF assms] Let_def) simp

lemma not_space_simps:
  "\<not> is_space CHR ''>''" "\<not> is_space CHR ''<''" "\<not> is_space CHR ''=''"
  "\<not> is_space CHR ''-''" "\<not> is_space CHR ''0''" "is_space CHR '' ''"
  by (simp_all add: is_space_def)

lemma split_ws_two:
  assumes "\<forall>ch\<in>set x. \<not> is_space ch" "\<forall>ch\<in>set y. \<not> is_space ch" "y \<noteq> []"
  shows "split_ws (x @ '' '' @ y) = [x, y]"
proof -
  have "dropWhile is_space y = y"
    using assms(2,3) by (cases y) auto
  then show ?thesis
    using split_ws_from_space[OF assms(1), of "CHR '' ''" "[]" y]
      split_ws_from_no_space[OF assms(2), of "[]"]
    by (simp add: split_ws_def not_space_simps)
qed

lemma version_text_not_Nil: "version_text a b c \<noteq> []"
  by (simp add: version_text_def)

lemma split_ws_closed_range:
  assumes "digits a" "digits b" "digits c" "digits a'" "digits b'" "digits c'"
    and "\<forall>ch\<in>set sfx. \<not> is_space ch"
  shows "split_ws (''>='' @ version_text a b c @ sfx @ '' <='' @ version_text a' b' c') =
         [''>='' @ version_text a b c @ sfx, ''<='' @ version_text a' b' c']"
  using split_ws_two[of "''>='' @ version_text a b c @ sfx" "''<='' @ version_text a' b' c'"]
    version_text_no_space[OF assms(1-3)] version_text_no_space[OF assms(4-6)] assms(7)
  by (auto simp: not_space_simps)

lemma startsWith_simps:
  "startsWith ''>='' (''>='' @ s)" "startsWith ''<='' (''<='' @ s)"
  by (simp_all add: startsWith_def)

lemma parseVersion_two_tokens:
  assumes "toComparators lib v = Inr cs" "validRange_of cs = r"
    and "minVersion lib r = Inr (Some mv)" "getMaxVersion r = Returns mx"
    and "CHR '' '' \<in> set r" "split_ws r = t0 # t1 # ts"
  shows "parseVersion lib v =
         Returns \<lparr>min_v = mv, max_v = mx, minInclusive = startsWith ''>='' t0,
                  maxInclusive = startsWith ''<='' t1\<rparr>"
  using assms by (simp add: parseVersion_def)


lemma parseVersion_closed_range_gen:
  assumes d: "digits a" "digits b" "digits c" "digits a'" "digits b'" "digits c'"
    and sfx: "sfx = [] \<or> sfx = ''-0''"
    and t: "toComparators lib v =
            Inr [[''>='' @ version_text a b c @ sfx, ''<='' @ version_text a' b' c']]"
    and m: "minVersion lib (''>='' @ version_text a b c @ sfx @ '' <='' @ version_text a' b' c')
            = Inr (Some mv)"
  shows "parseVersion lib v =
         Returns \<lparr>min_v = mv, max_v = version_text a' b' c',
                  minInclusive = True, maxInclusive = True\<rparr>"
proof -
  let ?r = "''>='' @ version_text a b c @ sfx @ '' <='' @ version_text a' b' c'"
  have vr: "validRange_of [[''>='' @ version_text a b c @ sfx, ''<='' @ version_text a' b' c']] = ?r"
    by (simp add: validRange_of_def)
  have mx: "getMaxVersion ?r = Returns (version_text a' b' c')"
    using sfx getMaxVersion_closed_range[OF d] getMaxVersion_closed_range_dash0[OF d] by auto
  have nosp: "\<forall>ch\<in>set sfx. \<not> is_space ch"
    using sfx by (auto simp: not_space_simps)
  have sp: "split_ws ?r = (''>='' @ version_text a b c @ sfx) # (''<='' @ version_text a' b' c') # []"
    by (rule split_ws_closed_range[OF d nosp])
  have inc: "CHR '' '' \<in> set ?r" by simp
  show ?thesis
    using parseVersion_two_tokens[OF t vr m mx inc sp]
    by (simp only: startsWith_simps)
qed








section \<open>Claims about version ranges\<close>







text \<open>
  Claim C6, as amended. For versions \<open>A\<close> and \<open>B\<close>, the results for \<^verbatim>\<open>>=A-0 <=B\<close> and
  for \<^verbatim>\<open>>=A <=B\<close> have the same \<open>max\<close> (namely \<open>B\<close>) and the same inclusivity flags
  (both true). The \<open>min\<close> of each is what \<^verbatim>\<open>semver.minVersion\<close> reports for that range:
  the \<^verbatim>\<open>-0\<close> is deleted only inside \<^verbatim>\<open>getMaxVersion\<close>, not before the minimum is taken.
\<close>

theorem parseVersion_dash0_same_max_and_flags:
  assumes "digits a" "digits b" "digits c" "digits a'" "digits b'" "digits c'"
    and "toComparators lib (''>='' @ version_text a b c @ ''-0 <='' @ version_text a' b' c') =
           Inr [[''>='' @ version_text a b c @ ''-0'', ''<='' @ version_text a' b' c']]"
    and "toComparators lib (''>='' @ version_text a b c @ '' <='' @ version_text a' b' c') =
           Inr [[''>='' @ version_text a b c, ''<='' @ version_text a' b' c']]"
    and "minVersion lib (''>='' @ version_text a b c @ ''-0 <='' @ version_text a' b' c') =
           Inr (Some m1)"
    and "minVersion lib (''>='' @ version_text a b c @ '' <='' @ version_text a' b' c') =
           Inr (Some m2)"
  shows "parseVersion lib (''>='' @ version_text a b c @ ''-0 <='' @ version_text a' b' c') =
           Returns \<lparr>min_v = m1, max_v = version_text a' b' c',
                    minInclusive = True, maxInclusive = True\<rparr>
       \<and> parseVersion lib (''>='' @ version_text a b c @ '' <='' @ version_text a' b' c') =
           Returns \<lparr>min_v = m2, max_v = version_text a' b' c',
                    minInclusive = True, maxInclusive = True\<rparr>"
  using parseVersion_closed_range_gen[OF assms(1-6), of "''-0''" lib _ m1]
    parseVersion_closed_range_gen[OF assms(1-6), of "[]" lib _ m2] assms(7-10)
  by simp

theorem parseVersion_dash0_same_max_and_flags_witness:
  "parseVersion semver_samples ''>=1.0.0-0 <=2.0.0'' =
     Returns \<lparr>min_v = ''1.0.0-0'', max_v = ''2.0.0'', minInclusive = True, maxInclusive = True\<rparr>
   \<and> parseVersion semver_samples ''>=1.0.0 <=2.0.0'' =
     Returns \<lparr>min_v = ''1.0.0'', max_v = ''2.0.0'', minInclusive = True, maxInclusive = True\<rparr>"
proof -
  have d: "digits ''1''" "digits ''0''" "digits ''0''" "digits ''2''" "digits ''0''" "digits ''0''"
    by (simp_all add: digits_def is_digit_def)
  show ?thesis
    using parseVersion_dash0_same_max_and_flags[OF d, of semver_samples "''1.0.0-0''" "''1.0.0''"]
    by (simp add: version_text_def semver_samples_def)
qed

text \<open>
  Claim C6 as stated fails in the field \<open>min\<close>: for \<^verbatim>\<open>>=1.0.0-0 <=2.0.0\<close> the package
  reports the pre-release \<^verbatim>\<open>1.0.0-0\<close> as the minimum, for \<^verbatim>\<open>>=1.0.0 <=2.0.0\<close> it
  reports \<^verbatim>\<open>1.0.0\<close>, and \<^verbatim>\<open>parseVersion\<close> returns each unchanged.
\<close>

theorem parseVersion_dash0_min_differs:
  "parseVersion semver_samples ''>=1.0.0-0 <=2.0.0'' =
     Returns \<lparr>min_v = ''1.0.0-0'', max_v = ''2.0.0'', minInclusive = True, maxInclusive = True\<rparr>
   \<and> parseVersion semver_samples ''>=1.0.0 <=2.0.0'' =
     Returns \<lparr>min_v = ''1.0.0'', max_v = ''2.0.0'', minInclusive = True, maxInclusive = True\<rparr>
   \<and> parseVersion semver_samples ''>=1.0.0-0 <=2.0.0''
       \<noteq> parseVersion semver_samples ''>=1.0.0 <=2.0.0''"
  by code_simp




section \<open>Properties of the repository address expression\<close>

lemma match_github_None_iff:
  "match_github url = None \<longleftrightarrow> (\<forall>pre s. url = pre @ s \<longrightarrow> match_github_at s = None)"
proof (induction url)
  case Nil
  then show ?case by simp
next
  case (Cons c cs)
  show ?case
  proof
    assume a: "match_github (c # cs) = None"
    then have here: "match_github_at (c # cs) = None" and later: "match_github cs = None"
      by (auto split: option.splits)
    show "\<forall>pre s. c # cs = pre @ s \<longrightarrow> match_github_at s = None"
    proof (intro allI impI)
      fix pre s assume e: "c # cs = pre @ s"
      show "match_github_at s = None"
      proof (cases pre)
        case Nil
        then show ?thesis using e here by simp
      next
        case (Cons p ps)
        then have "cs = ps @ s" using e by simp
        then show ?thesis using later Cons.IH by blast
      qed
    qed
  next
    assume a: "\<forall>pre s. c # cs = pre @ s \<longrightarrow> match_github_at s = None"
    then have here: "match_github_at (c # cs) = None"
      by (metis append_Nil)
    have "\<forall>pre s. cs = pre @ s \<longrightarrow> match_github_at s = None"
      using a by (metis append_Cons)
    then have "match_github cs = None" using Cons.IH by simp
    then show "match_github (c # cs) = None" using here by simp
  qed
qed

lemma match_github_Some_suffix:
  "match_github url = Some g \<Longrightarrow> \<exists>pre s. url = pre @ s \<and> match_github_at s = Some g"
proof (induction url)
  case Nil
  then show ?case by simp
next
  case (Cons c cs)
  show ?case
  proof (cases "match_github_at (c # cs)")
    case None
    then have "match_github cs = Some g" using Cons.prems by simp
    then obtain pre s where "cs = pre @ s" "match_github_at s = Some g"
      using Cons.IH by blast
    then have "c # cs = (c # pre) @ s" by simp
    then show ?thesis using \<open>match_github_at s = Some g\<close> by blast
  next
    case (Some h)
    then have "h = g" using Cons.prems by simp
    then show ?thesis using Some by (metis append_Nil)
  qed
qed

lemma match_github_at_Some:
  assumes "match_github_at s = Some (g1, g2)"
  shows "\<exists>sep rest. s = ''github.com'' @ sep # g1 @ CHR ''/'' # g2 @ rest
           \<and> (sep = CHR ''/'' \<or> sep = CHR '':'')
           \<and> g1 \<noteq> [] \<and> CHR ''/'' \<notin> set g1 \<and> g2 \<noteq> []
           \<and> (\<forall>c\<in>set g2. c \<noteq> CHR ''/'' \<and> c \<noteq> CHR ''.'')"
proof -
  let ?P = "\<lambda>c. c \<noteq> CHR ''/''"
  let ?Q = "\<lambda>c. c \<noteq> CHR ''/'' \<and> c \<noteq> CHR ''.''"
  have p: "prefix ''github.com'' s"
    using assms unfolding match_github_at_def by (cases "prefix ''github.com'' s") simp_all
  then obtain t where s: "s = ''github.com'' @ t"
    unfolding prefix_def by blast
  have d: "drop 10 s = t" unfolding s by simp
  have m1: "(case t of [] \<Rightarrow> None
       | sep # r \<Rightarrow>
           let g1 = takeWhile ?P r in
           if (sep \<noteq> CHR ''/'' \<and> sep \<noteq> CHR '':'') \<or> g1 = [] then None else
           (case dropWhile ?P r of
              [] \<Rightarrow> None
            | slash # r2 \<Rightarrow>
                let g2 = takeWhile ?Q r2 in
                if g2 = [] then None else Some (g1, g2))) = Some (g1, g2)"
    using assms p unfolding match_github_at_def d by simp
  then obtain sep r where t: "t = sep # r"
    by (cases t) simp_all
  have sep: "sep = CHR ''/'' \<or> sep = CHR '':''" and g1n: "takeWhile ?P r \<noteq> []"
    and m2: "(case dropWhile ?P r of
              [] \<Rightarrow> None
            | slash # r2 \<Rightarrow>
                let g2 = takeWhile ?Q r2 in
                if g2 = [] then None else Some (takeWhile ?P r, g2)) = Some (g1, g2)"
    using m1 unfolding t by (simp_all add: Let_def split: if_splits)
  obtain slash r2 where dr: "dropWhile ?P r = slash # r2"
    using m2 by (cases "dropWhile ?P r") simp_all
  have g1: "g1 = takeWhile ?P r" and g2: "g2 = takeWhile ?Q r2" and g2n: "g2 \<noteq> []"
    using m2 unfolding dr by (simp_all add: Let_def split: if_splits)
  have slash: "slash = CHR ''/''"
    using dr hd_dropWhile[of ?P r] by auto
  have r: "r = g1 @ CHR ''/'' # r2"
    using takeWhile_dropWhile_id[of ?P r] dr g1 slash by simp
  have r2: "r2 = g2 @ dropWhile ?Q r2"
    using g2 by simp
  have n1: "CHR ''/'' \<notin> set g1"
    unfolding g1 using set_takeWhileD[of "CHR ''/''" ?P r] by blast
  have n2: "\<forall>c\<in>set g2. c \<noteq> CHR ''/'' \<and> c \<noteq> CHR ''.''"
    unfolding g2 using set_takeWhileD[of _ ?Q r2] by blast
  have "s = ''github.com'' @ sep # g1 @ CHR ''/'' # g2 @ dropWhile ?Q r2"
    using s t r r2 by simp
  then show ?thesis
    using sep g1n g1 n1 g2n n2 by blast
qed

lemma match_github_at_shape:
  assumes "sep = CHR ''/'' \<or> sep = CHR '':''" "own \<noteq> []" "CHR ''/'' \<notin> set own"
    "c \<noteq> CHR ''/''" "c \<noteq> CHR ''.''"
  shows "match_github_at (''github.com'' @ sep # own @ CHR ''/'' # c # rest) \<noteq> None"
proof -
  have own: "\<And>x. x \<in> set own \<Longrightarrow> x \<noteq> CHR ''/''"
    using assms(3) by blast
  have tw: "takeWhile (\<lambda>c. c \<noteq> CHR ''/'') (own @ CHR ''/'' # c # rest) = own"
    using own by (simp add: takeWhile_append2)
  have dw: "dropWhile (\<lambda>c. c \<noteq> CHR ''/'') (own @ CHR ''/'' # c # rest) = CHR ''/'' # c # rest"
    using own by (simp add: dropWhile_append2)
  have p: "prefix ''github.com'' (''github.com'' @ sep # own @ CHR ''/'' # c # rest)"
    by simp
  have d: "drop 10 (''github.com'' @ sep # own @ CHR ''/'' # c # rest)
           = sep # own @ CHR ''/'' # c # rest"
    by simp
  show ?thesis
    unfolding match_github_at_def using assms(1,2,4,5)
    by (simp only: p d tw dw list.case Let_def takeWhile.simps) auto
qed

lemma match_github_groups:
  assumes "match_github url = Some (g1, g2)"
  shows "g1 \<noteq> [] \<and> g2 \<noteq> []"
proof -
  obtain pre s where "match_github_at s = Some (g1, g2)"
    using match_github_Some_suffix[OF assms] by blast
  from match_github_at_Some[OF this] show ?thesis by blast
qed

lemma parseGitHubUrl_None_iff_match: "parseGitHubUrl url = None \<longleftrightarrow> match_github url = None"
proof (cases "match_github url")
  case None
  then show ?thesis by (simp add: parseGitHubUrl_def)
next
  case (Some g)
  obtain g1 g2 where g: "g = (g1, g2)" by (cases g)
  have "g1 \<noteq> [] \<and> g2 \<noteq> []"
    using match_github_groups[of url g1 g2] Some g by simp
  then show ?thesis using Some g by (simp add: parseGitHubUrl_def)
qed

lemma match_github_iff_shaped: "match_github url \<noteq> None \<longleftrightarrow> github_shaped url"
proof
  assume "match_github url \<noteq> None"
  then obtain g1 g2 where "match_github url = Some (g1, g2)" by auto
  then obtain pre s where u: "url = pre @ s" and m: "match_github_at s = Some (g1, g2)"
    using match_github_Some_suffix by blast
  from match_github_at_Some[OF m] obtain sep rest where
    s: "s = ''github.com'' @ sep # g1 @ CHR ''/'' # g2 @ rest"
    and sep: "sep = CHR ''/'' \<or> sep = CHR '':''"
    and g: "g1 \<noteq> []" "CHR ''/'' \<notin> set g1" "g2 \<noteq> []"
       "\<forall>c\<in>set g2. c \<noteq> CHR ''/'' \<and> c \<noteq> CHR ''.''"
    by blast
  obtain c g2' where g2: "g2 = c # g2'" using g(3) by (cases g2) auto
  have "url = pre @ ''github.com'' @ [sep] @ g1 @ ''/'' @ [c] @ (g2' @ rest)"
    using u s g2 by simp
  moreover have "c \<noteq> CHR ''/'' \<and> c \<noteq> CHR ''.''" using g(4) g2 by simp
  ultimately show "github_shaped url"
    unfolding github_shaped_def using sep g(1,2) by blast
next
  assume "github_shaped url"
  then obtain pre sep own c rest where
    u: "url = pre @ ''github.com'' @ [sep] @ own @ ''/'' @ [c] @ rest"
    and h: "sep = CHR ''/'' \<or> sep = CHR '':''" "own \<noteq> []" "CHR ''/'' \<notin> set own"
      "c \<noteq> CHR ''/''" "c \<noteq> CHR ''.''"
    unfolding github_shaped_def by blast
  have "match_github_at (''github.com'' @ sep # own @ CHR ''/'' # c # rest) \<noteq> None"
    by (rule match_github_at_shape[OF h])
  moreover have "url = pre @ (''github.com'' @ sep # own @ CHR ''/'' # c # rest)"
    using u by simp
  ultimately have ex: "\<not> (\<forall>pre s. url = pre @ s \<longrightarrow> match_github_at s = None)"
    by (intro notI) (erule allE, erule allE, erule impE, assumption, simp)
  show "match_github url \<noteq> None"
  proof
    assume "match_github url = None"
    then have "\<forall>pre s. url = pre @ s \<longrightarrow> match_github_at s = None"
      by (rule iffD1[OF match_github_None_iff])
    then show False using ex by simp
  qed
qed

section \<open>Claims about repository addresses\<close>

text \<open>
  Claim C8, as amended. \<^verbatim>\<open>parseGitHubUrl\<close> never throws. It returns owner \<^verbatim>\<open>acme\<close> and
  repository \<^verbatim>\<open>widget\<close> for \<^verbatim>\<open>https://github.com/acme/widget.git\<close>, and \<^verbatim>\<open>null\<close> for
  \<^verbatim>\<open>https://example.com/acme/widget\<close>. In general it returns \<^verbatim>\<open>null\<close> exactly for the
  texts that nowhere (in the host or behind it) hold \<^verbatim>\<open>github.com\<close>, a slash or colon,
  and an owner and repository path.
\<close>

theorem parseGitHubUrl_null_iff_not_shaped:
  "parseGitHubUrl ''https://github.com/acme/widget.git'' = Some \<lparr>owner = ''acme'', repo = ''widget''\<rparr>
   \<and> parseGitHubUrl ''https://example.com/acme/widget'' = None
   \<and> (parseGitHubUrl url = None \<longleftrightarrow> \<not> github_shaped url)"
proof -
  have "parseGitHubUrl ''https://github.com/acme/widget.git''
        = Some \<lparr>owner = ''acme'', repo = ''widget''\<rparr>"
    by code_simp
  moreover have "parseGitHubUrl ''https://example.com/acme/widget'' = None"
    by code_simp
  moreover have "parseGitHubUrl url = None \<longleftrightarrow> \<not> github_shaped url"
    using parseGitHubUrl_None_iff_match[of url] match_github_iff_shaped[of url] by blast
  ultimately show ?thesis by simp
qed

theorem parseGitHubUrl_null_iff_not_shaped_witness:
  "parseGitHubUrl ''https://example.com/acme/widget'' = None
   \<and> \<not> github_shaped ''https://example.com/acme/widget''"
proof -
  note t = parseGitHubUrl_null_iff_not_shaped[of "''https://example.com/acme/widget''"]
  have n: "parseGitHubUrl ''https://example.com/acme/widget'' = None"
    by (rule conjunct1[OF conjunct2[OF t]])
  have "(parseGitHubUrl ''https://example.com/acme/widget'' = None)
        = (\<not> github_shaped ''https://example.com/acme/widget'')"
    by (rule conjunct2[OF conjunct2[OF t]])
  then have "\<not> github_shaped ''https://example.com/acme/widget''"
    using n by (rule iffD1)
  then show ?thesis using n by (rule conjI[rotated])
qed

text \<open>
  Claim C8 as stated fails: the expression is applied to the whole text, not to the
  host. In \<^verbatim>\<open>https://example.com/github.com/acme/widget\<close> the host is \<^verbatim>\<open>example.com\<close>,
  which does not contain \<^verbatim>\<open>github.com\<close>, and yet an owner and a repository are returned.
\<close>

theorem parseGitHubUrl_foreign_host_matches:
  "url_host ''https://example.com/github.com/acme/widget'' = ''example.com''
   \<and> \<not> sublist ''github.com'' ''example.com''
   \<and> parseGitHubUrl ''https://example.com/github.com/acme/widget''
       = Some \<lparr>owner = ''acme'', repo = ''widget''\<rparr>"
  by code_simp

section \<open>Claims about the database queries\<close>

text \<open>
  Claim C1 does not hold of the code: in the range condition of \<^verbatim>\<open>getMetaDataByQuery\<close>
  the comparator chosen by \<^verbatim>\<open>minInclusive\<close> is attached to \<^verbatim>\<open>maxVersion\<close> and the one
  chosen by \<^verbatim>\<open>maxInclusive\<close> to \<^verbatim>\<open>minVersion\<close>. For the bounds \<^verbatim>\<open>1.0.0\<close> and \<^verbatim>\<open>2.0.0\<close>,
  both inclusive, the stored version is asked to be at least \<^verbatim>\<open>2.0.0\<close> and at most
  \<^verbatim>\<open>1.0.0\<close>.
\<close>

theorem getMetaDataByQuery_bounds_swapped:
  "getMetaDataByQuery_args (Some ''*'') ''1.0.0'' ''2.0.0'' True True (Num 1) =
     \<lparr>where_arg = \<lparr>where_version = Some [(Gte, ''2.0.0''), (Lte, ''1.0.0'')],
                    where_name = None\<rparr>,
      skip_arg = Some (Num 0), take_arg = Some (Num 10)\<rparr>"
  by (simp add: getMetaDataByQuery_args_def to_double_def)

text \<open>
  Claim C9, as amended. The query with the timer of five seconds is the search by name
  (\<^verbatim>\<open>getMetaDataByRegEx\<close>): it returns the rows, or \<^verbatim>\<open>null\<close> after a rejection, when
  the database answers in less than 5000 milliseconds, and \<^verbatim>\<open>null\<close> at 5000
  milliseconds when the database answers later or never. The query by version range
  (\<^verbatim>\<open>getMetaDataByQuery\<close>) has no timer: it returns the rows, or \<^verbatim>\<open>null\<close> after a
  rejection, at the moment the database answers, however late, and never returns if the
  database never answers.
\<close>

theorem only_the_name_search_has_a_timeout:
  "(\<forall>t rows. db (getMetaDataByRegEx_args regEx) = Settles t (Inr rows) \<and> t < 5000
        \<longrightarrow> getMetaDataByRegEx db regEx = Settles t (Inr (Some rows)))
   \<and> (\<forall>t e. db (getMetaDataByRegEx_args regEx) = Settles t (Inl e) \<and> t < 5000
        \<longrightarrow> getMetaDataByRegEx db regEx = Settles t (Inr None))
   \<and> (\<forall>t res. db (getMetaDataByRegEx_args regEx) = Settles t res \<and> 5000 \<le> t
        \<longrightarrow> getMetaDataByRegEx db regEx = Settles 5000 (Inr None))
   \<and> (db (getMetaDataByRegEx_args regEx) = Pending
        \<longrightarrow> getMetaDataByRegEx db regEx = Settles 5000 (Inr None))
   \<and> where_name (where_arg (getMetaDataByRegEx_args regEx)) = Some (Contains regEx)
   \<and> (\<forall>t rows. db' (getMetaDataByQuery_args q mn mx mi ma off) = Settles t (Inr rows)
        \<longrightarrow> getMetaDataByQuery db' q mn mx mi ma off = Settles t (Inr (Some rows)))
   \<and> (\<forall>t e. db' (getMetaDataByQuery_args q mn mx mi ma off) = Settles t (Inl e)
        \<longrightarrow> getMetaDataByQuery db' q mn mx mi ma off = Settles t (Inr None))
   \<and> (db' (getMetaDataByQuery_args q mn mx mi ma off) = Pending
        \<longrightarrow> getMetaDataByQuery db' q mn mx mi ma off = Pending)"
proof -
  have a: "\<forall>t rows. db (getMetaDataByRegEx_args regEx) = Settles t (Inr rows) \<and> t < 5000
        \<longrightarrow> getMetaDataByRegEx db regEx = Settles t (Inr (Some rows))"
    by (simp add: getMetaDataByRegEx_def)
  have b: "\<forall>t e. db (getMetaDataByRegEx_args regEx) = Settles t (Inl e) \<and> t < 5000
        \<longrightarrow> getMetaDataByRegEx db regEx = Settles t (Inr None)"
    by (simp add: getMetaDataByRegEx_def)
  have c: "\<forall>t res. db (getMetaDataByRegEx_args regEx) = Settles t res \<and> 5000 \<le> t
        \<longrightarrow> getMetaDataByRegEx db regEx = Settles 5000 (Inr None)"
    by (simp add: getMetaDataByRegEx_def)
  have d: "db (getMetaDataByRegEx_args regEx) = Pending
        \<longrightarrow> getMetaDataByRegEx db regEx = Settles 5000 (Inr None)"
    by (simp add: getMetaDataByRegEx_def)
  have e: "where_name (where_arg (getMetaDataByRegEx_args regEx)) = Some (Contains regEx)"
    by (simp add: getMetaDataByRegEx_args_def)
  have f: "\<forall>t rows. db' (getMetaDataByQuery_args q mn mx mi ma off) = Settles t (Inr rows)
        \<longrightarrow> getMetaDataByQuery db' q mn mx mi ma off = Settles t (Inr (Some rows))"
    by (simp add: getMetaDataByQuery_def)
  have g: "\<forall>t e. db' (getMetaDataByQuery_args q mn mx mi ma off) = Settles t (Inl e)
        \<longrightarrow> getMetaDataByQuery db' q mn mx mi ma off = Settles t (Inr None)"
    by (simp add: getMetaDataByQuery_def)
  have h: "db' (getMetaDataByQuery_args q mn mx mi ma off) = Pending
        \<longrightarrow> getMetaDataByQuery db' q mn mx mi ma off = Pending"
    by (simp add: getMetaDataByQuery_def)
  show ?thesis
    by (intro conjI a b c d e f g h)
qed

theorem only_the_name_search_has_a_timeout_witness:
  "getMetaDataByRegEx fast_database ''wid'' =
     Settles 20 (Inr (Some [\<lparr>row_name = ''widget'', row_version = ''1.2.3'', row_id = ''id-1''\<rparr>]))
   \<and> getMetaDataByRegEx failing_database ''wid'' = Settles 20 (Inr None)
   \<and> getMetaDataByRegEx slow_database ''wid'' = Settles 5000 (Inr None)
   \<and> getMetaDataByRegEx silent_database ''wid'' = Settles 5000 (Inr None)
   \<and> getMetaDataByQuery fast_database (Some ''*'') ''1.0.0'' ''2.0.0'' True True (Num 1) =
     Settles 20 (Inr (Some [\<lparr>row_name = ''widget'', row_version = ''1.2.3'', row_id = ''id-1''\<rparr>]))
   \<and> getMetaDataByQuery failing_database (Some ''*'') ''1.0.0'' ''2.0.0'' True True (Num 1) =
     Settles 20 (Inr None)"
proof -
  note fast = only_the_name_search_has_a_timeout
    [of fast_database "''wid''" fast_database "Some ''*''" "''1.0.0''" "''2.0.0''" True True "Num 1"]
  note failing = only_the_name_search_has_a_timeout
    [of failing_database "''wid''" failing_database "Some ''*''" "''1.0.0''" "''2.0.0''" True True
        "Num 1"]
  note slow = only_the_name_search_has_a_timeout
    [of slow_database "''wid''" slow_database "Some ''*''" "''1.0.0''" "''2.0.0''" True True "Num 1"]
  note silent = only_the_name_search_has_a_timeout
    [of silent_database "''wid''" silent_database "Some ''*''" "''1.0.0''" "''2.0.0''" True True
        "Num 1"]
  have 1: "getMetaDataByRegEx fast_database ''wid'' =
     Settles 20 (Inr (Some [\<lparr>row_name = ''widget'', row_version = ''1.2.3'', row_id = ''id-1''\<rparr>]))"
    using fast by (simp add: fast_database_def)
  have 2: "getMetaDataByRegEx failing_database ''wid'' = Settles 20 (Inr None)"
    using failing by (simp add: failing_database_def)
  have 3: "getMetaDataByRegEx slow_database ''wid'' = Settles 5000 (Inr None)"
    using slow by (simp add: slow_database_def)
  have 4: "getMetaDataByRegEx silent_database ''wid'' = Settles 5000 (Inr None)"
    using silent by (simp add: silent_database_def)
  have 5: "getMetaDataByQuery fast_database (Some ''*'') ''1.0.0'' ''2.0.0'' True True (Num 1) =
     Settles 20 (Inr (Some [\<lparr>row_name = ''widget'', row_version = ''1.2.3'', row_id = ''id-1''\<rparr>]))"
    using fast by (simp add: fast_database_def)
  have 6: "getMetaDataByQuery failing_database (Some ''*'') ''1.0.0'' ''2.0.0'' True True (Num 1) =
     Settles 20 (Inr None)"
    using failing by (simp add: failing_database_def)
  show ?thesis
    by (intro conjI 1 2 3 4 5 6)
qed

text \<open>
  Claim C9 as stated fails: when the database takes six seconds, the query by version
  range returns the rows after six seconds instead of \<^verbatim>\<open>null\<close> after five, and when the
  database never answers, the query never returns.
\<close>

theorem getMetaDataByQuery_has_no_timeout:
  "getMetaDataByQuery slow_database (Some ''*'') ''1.0.0'' ''2.0.0'' True True (Num 1)
     = Settles 6000 (Inr (Some []))
   \<and> getMetaDataByQuery silent_database (Some ''*'') ''1.0.0'' ''2.0.0'' True True (Num 1)
     = Pending"
  by (simp add: getMetaDataByQuery_def slow_database_def silent_database_def)

text \<open>
  Claim C10, as amended. Take a request whose body has the field \<^verbatim>\<open>Name\<close> (whatever
  its value, the wildcard included) and no field \<^verbatim>\<open>name\<close>. Without a \<^verbatim>\<open>Version\<close> the
  handler answers 400; with a version on which \<^verbatim>\<open>parseVersion\<close> throws it answers 500,
  and with one on which \<^verbatim>\<open>parseVersion\<close> ends the process nothing is answered. With a
  version on which \<^verbatim>\<open>parseVersion\<close> returns a range, the name handed to the range
  query is \<^verbatim>\<open>undefined\<close>: it differs from \<^verbatim>\<open>*\<close>, so the one query sent to the database
  carries the name condition "equal to \<^verbatim>\<open>undefined\<close>" instead of the value of \<^verbatim>\<open>Name\<close>,
  and the answer of the handler is made from the reply to that query.
\<close>

theorem getPackages_ignores_Name_field:
  assumes "body req ''Name'' = Some n" and "body req ''name'' = None"
    and "offset = (case query_offset req of None \<Rightarrow> Num 1 | Some s \<Rightarrow> parseInt env s)"
  shows "(body req ''Version'' = None \<longrightarrow>
            getPackages env req = send 400 ''Error in getPackageMetaData: Version is undefined'')
       \<and> (\<forall>v e. body req ''Version'' = Some v \<and> parseVersion (semver env) v = Throws e \<longrightarrow>
            getPackages env req = send 500 (''Error in getPackageMetaData: '' @ error_text e))
       \<and> (\<forall>v k. body req ''Version'' = Some v \<and> parseVersion (semver env) v = Exits k \<longrightarrow>
            getPackages env req = Terminates k)
       \<and> (\<forall>v r args. body req ''Version'' = Some v \<and> parseVersion (semver env) v = Returns r
            \<and> args =
                \<lparr>where_arg =
                   \<lparr>where_version = Some [(if minInclusive r then Gte else Gt, max_v r),
                                          (if maxInclusive r then Lte else Lt, min_v r)],
                    where_name = Some (Equals None)\<rparr>,
                 skip_arg = Some (js_times (js_minus (js_max (Num 1) offset) (Num 1)) (Num 10)),
                 take_arg = Some (Num 10)\<rparr>
            \<longrightarrow>
              (findMany env args = Pending \<longrightarrow> getPackages env req = Hangs)
            \<and> (\<forall>t e. findMany env args = Settles t (Inl e) \<longrightarrow>
                  getPackages env req =
                    send 500 ''Error in getPackageMetaData: packageMetaData is null'')
            \<and> (\<forall>t rows. findMany env args = Settles t (Inr rows) \<longrightarrow>
                  getPackages env req =
                    Responds \<lparr>status = 200,
                              payload = MetadataJson
                                (map (\<lambda>m. \<lparr>Name = row_name m, Version = row_version m,
                                            ID = row_id m\<rparr>) rows),
                              headers = [(''offset'', offset)]\<rparr>))"
proof -
  have a: "body req ''Version'' = None \<longrightarrow>
            getPackages env req = send 400 ''Error in getPackageMetaData: Version is undefined''"
    using assms(1) by (simp add: getPackages_def)
  have b: "\<forall>v e. body req ''Version'' = Some v \<and> parseVersion (semver env) v = Throws e \<longrightarrow>
            getPackages env req = send 500 (''Error in getPackageMetaData: '' @ error_text e)"
    using assms(1) by (simp add: getPackages_def)
  have c: "\<forall>v k. body req ''Version'' = Some v \<and> parseVersion (semver env) v = Exits k \<longrightarrow>
            getPackages env req = Terminates k"
    using assms(1) by (simp add: getPackages_def)
  have q: "getMetaDataByQuery_args None mn mx mi ma offset =
             \<lparr>where_arg =
                \<lparr>where_version = Some [(if mi then Gte else Gt, mx), (if ma then Lte else Lt, mn)],
                 where_name = Some (Equals None)\<rparr>,
              skip_arg = Some (js_times (js_minus (js_max (Num 1) offset) (Num 1)) (Num 10)),
              take_arg = Some (Num 10)\<rparr>" for mn mx mi ma
    by (simp add: getMetaDataByQuery_args_def Let_def)
  have r: "getPackages env req =
           getPackages_reply offset
             (getMetaDataByQuery (findMany env) None (min_v r) (max_v r)
                (minInclusive r) (maxInclusive r) offset)"
    if "body req ''Version'' = Some v" "parseVersion (semver env) v = Returns r" for v r
    using assms that by (simp add: getPackages_def Let_def)
  have d: "(findMany env args = Pending \<longrightarrow> getPackages env req = Hangs)
            \<and> (\<forall>t e. findMany env args = Settles t (Inl e) \<longrightarrow>
                  getPackages env req =
                    send 500 ''Error in getPackageMetaData: packageMetaData is null'')
            \<and> (\<forall>t rows. findMany env args = Settles t (Inr rows) \<longrightarrow>
                  getPackages env req =
                    Responds \<lparr>status = 200,
                              payload = MetadataJson
                                (map (\<lambda>m. \<lparr>Name = row_name m, Version = row_version m,
                                            ID = row_id m\<rparr>) rows),
                              headers = [(''offset'', offset)]\<rparr>)"
    if v: "body req ''Version'' = Some v" "parseVersion (semver env) v = Returns r"
      and args: "args =
                \<lparr>where_arg =
                   \<lparr>where_version = Some [(if minInclusive r then Gte else Gt, max_v r),
                                          (if maxInclusive r then Lte else Lt, min_v r)],
                    where_name = Some (Equals None)\<rparr>,
                 skip_arg = Some (js_times (js_minus (js_max (Num 1) offset) (Num 1)) (Num 10)),
                 take_arg = Some (Num 10)\<rparr>"
    for v r args
  proof -
    have e: "getMetaDataByQuery_args None (min_v r) (max_v r) (minInclusive r) (maxInclusive r)
               offset = args"
      unfolding args by (rule q)
    show ?thesis
      unfolding r[OF v] getMetaDataByQuery_def e
      by (simp add: getPackages_reply_def)
  qed
  have d': "\<forall>v r args. body req ''Version'' = Some v \<and> parseVersion (semver env) v = Returns r
            \<and> args =
                \<lparr>where_arg =
                   \<lparr>where_version = Some [(if minInclusive r then Gte else Gt, max_v r),
                                          (if maxInclusive r then Lte else Lt, min_v r)],
                    where_name = Some (Equals None)\<rparr>,
                 skip_arg = Some (js_times (js_minus (js_max (Num 1) offset) (Num 1)) (Num 10)),
                 take_arg = Some (Num 10)\<rparr>
            \<longrightarrow>
              (findMany env args = Pending \<longrightarrow> getPackages env req = Hangs)
            \<and> (\<forall>t e. findMany env args = Settles t (Inl e) \<longrightarrow>
                  getPackages env req =
                    send 500 ''Error in getPackageMetaData: packageMetaData is null'')
            \<and> (\<forall>t rows. findMany env args = Settles t (Inr rows) \<longrightarrow>
                  getPackages env req =
                    Responds \<lparr>status = 200,
                              payload = MetadataJson
                                (map (\<lambda>m. \<lparr>Name = row_name m, Version = row_version m,
                                            ID = row_id m\<rparr>) rows),
                              headers = [(''offset'', offset)]\<rparr>)"
  proof (intro allI impI, elim conjE)
    fix v r args
    assume "body req ''Version'' = Some v" "parseVersion (semver env) v = Returns r"
      "args =
                \<lparr>where_arg =
                   \<lparr>where_version = Some [(if minInclusive r then Gte else Gt, max_v r),
                                          (if maxInclusive r then Lte else Lt, min_v r)],
                    where_name = Some (Equals None)\<rparr>,
                 skip_arg = Some (js_times (js_minus (js_max (Num 1) offset) (Num 1)) (Num 10)),
                 take_arg = Some (Num 10)\<rparr>"
    then show "(findMany env args = Pending \<longrightarrow> getPackages env req = Hangs)
            \<and> (\<forall>t e. findMany env args = Settles t (Inl e) \<longrightarrow>
                  getPackages env req =
                    send 500 ''Error in getPackageMetaData: packageMetaData is null'')
            \<and> (\<forall>t rows. findMany env args = Settles t (Inr rows) \<longrightarrow>
                  getPackages env req =
                    Responds \<lparr>status = 200,
                              payload = MetadataJson
                                (map (\<lambda>m. \<lparr>Name = row_name m, Version = row_version m,
                                            ID = row_id m\<rparr>) rows),
                              headers = [(''offset'', offset)]\<rparr>)"
      by (rule d)
  qed
  show ?thesis
    by (intro conjI a b c d')
qed

theorem getPackages_ignores_Name_field_witness:
  "body sample_request ''Name'' = Some ''*'' \<and> body sample_request ''name'' = None
   \<and> body sample_request ''Version'' = Some ''1.2.3''
   \<and> parseVersion (semver sample_backend) ''1.2.3'' =
        Returns \<lparr>min_v = ''1.2.3'', max_v = ''1.2.3'', minInclusive = True, maxInclusive = True\<rparr>
   \<and> findMany sample_backend
        \<lparr>where_arg = \<lparr>where_version = Some [(Gte, ''1.2.3''), (Lte, ''1.2.3'')],
                       where_name = Some (Equals None)\<rparr>,
         skip_arg = Some (Num 0), take_arg = Some (Num 10)\<rparr> = Settles 6000 (Inr [])
   \<and> getPackages sample_backend sample_request =
        Responds \<lparr>status = 200, payload = MetadataJson [], headers = [(''offset'', Num 1)]\<rparr>"
proof -
  let ?r = "\<lparr>min_v = ''1.2.3'', max_v = ''1.2.3'', minInclusive = True, maxInclusive = True\<rparr>"
  let ?args = "\<lparr>where_arg = \<lparr>where_version = Some [(Gte, ''1.2.3''), (Lte, ''1.2.3'')],
                       where_name = Some (Equals None)\<rparr>,
         skip_arg = Some (Num 0), take_arg = Some (Num 10)\<rparr>"
  have b: "body sample_request ''Name'' = Some ''*''" "body sample_request ''name'' = None"
    by (simp_all add: sample_request_def)
  have v: "body sample_request ''Version'' = Some ''1.2.3''"
    by (simp add: sample_request_def)
  have p: "parseVersion (semver sample_backend) ''1.2.3'' = Returns ?r"
    unfolding sample_backend_def by code_simp
  have off: "Num 1 = (case query_offset sample_request of None \<Rightarrow> Num 1
                      | Some s \<Rightarrow> parseInt sample_backend s)"
    by (simp add: sample_request_def)
  have db: "findMany sample_backend ?args = Settles 6000 (Inr [])"
    by (simp add: sample_backend_def slow_database_def)
  have args: "?args =
                \<lparr>where_arg =
                   \<lparr>where_version = Some [(if minInclusive ?r then Gte else Gt, max_v ?r),
                                          (if maxInclusive ?r then Lte else Lt, min_v ?r)],
                    where_name = Some (Equals None)\<rparr>,
                 skip_arg = Some (js_times (js_minus (js_max (Num 1) (Num 1)) (Num 1)) (Num 10)),
                 take_arg = Some (Num 10)\<rparr>"
    by (simp add: to_double_def)
  note t = getPackages_ignores_Name_field[OF b off]
  have prem: "body sample_request ''Version'' = Some ''1.2.3''
      \<and> parseVersion (semver sample_backend) ''1.2.3'' = Returns ?r
      \<and> ?args =
                \<lparr>where_arg =
                   \<lparr>where_version = Some [(if minInclusive ?r then Gte else Gt, max_v ?r),
                                          (if maxInclusive ?r then Lte else Lt, min_v ?r)],
                    where_name = Some (Equals None)\<rparr>,
                 skip_arg = Some (js_times (js_minus (js_max (Num 1) (Num 1)) (Num 1)) (Num 10)),
                 take_arg = Some (Num 10)\<rparr>"
    by (intro conjI v p args)
  have "(findMany sample_backend ?args = Pending \<longrightarrow>
           getPackages sample_backend sample_request = Hangs)
        \<and> (\<forall>t e. findMany sample_backend ?args = Settles t (Inl e) \<longrightarrow>
              getPackages sample_backend sample_request =
                send 500 ''Error in getPackageMetaData: packageMetaData is null'')
        \<and> (\<forall>t rows. findMany sample_backend ?args = Settles t (Inr rows) \<longrightarrow>
                  getPackages sample_backend sample_request =
                    Responds \<lparr>status = 200,
                              payload = MetadataJson
                                (map (\<lambda>m. \<lparr>Name = row_name m, Version = row_version m,
                                            ID = row_id m\<rparr>) rows),
                              headers = [(''offset'', Num 1)]\<rparr>)"
    by (rule conjunct2[OF conjunct2[OF conjunct2[OF t]], rule_format, OF prem])
  then have "\<forall>t rows. findMany sample_backend ?args = Settles t (Inr rows) \<longrightarrow>
                  getPackages sample_backend sample_request =
                    Responds \<lparr>status = 200,
                              payload = MetadataJson
                                (map (\<lambda>m. \<lparr>Name = row_name m, Version = row_version m,
                                            ID = row_id m\<rparr>) rows),
                              headers = [(''offset'', Num 1)]\<rparr>"
    by (elim conjE)
  then have g: "getPackages sample_backend sample_request =
        Responds \<lparr>status = 200, payload = MetadataJson [], headers = [(''offset'', Num 1)]\<rparr>"
    using db by simp
  show ?thesis
    by (intro conjI b v p db g)
qed

text \<open>
  Claim C10 as stated fails for requests of its class that never reach the range query:
  with \<^verbatim>\<open>Name\<close> and no \<^verbatim>\<open>Version\<close> the handler answers 400 and no name is forwarded,
  and with \<^verbatim>\<open>Name\<close> and the empty text as \<^verbatim>\<open>Version\<close> the process is ended.
\<close>

theorem getPackages_without_version_answers_400:
  "body name_only_request ''Name'' = Some ''widget'' \<and> body name_only_request ''name'' = None
   \<and> getPackages sample_backend name_only_request =
        Responds \<lparr>status = 400,
                  payload = Text ''Error in getPackageMetaData: Version is undefined'',
                  headers = []\<rparr>
   \<and> body empty_version_request ''Name'' = Some ''widget''
   \<and> body empty_version_request ''name'' = None
   \<and> getPackages sample_backend empty_version_request = Terminates 1"
  by code_simp

section \<open>Claims about the upload\<close>

lemma calculateAndStoreGithubMetrics_failed:
  assumes "calculate env o' r' = Inl e \<or> rejected env CreateRating \<noteq> None"
  shows "calculateAndStoreGithubMetrics env i o' r' w = w"
  using assms
  by (auto simp: calculateAndStoreGithubMetrics_def storeMetricsInDatabase_def
      split: sum.splits option.splits)

lemma uploadMetadataToDatabase_row:
  assumes "uploadMetadataToDatabase env metadata w = Inr w1"
  shows "\<exists>n v. Name metadata = Some (JStr n) \<and> Version metadata = Some (JStr v)
           \<and> w1 = w\<lparr>metadata_table := metadata_table w
                       @ [\<lparr>row_name = n, row_version = v, row_id = ID metadata\<rparr>]\<rparr>"
  using assms
  by (auto simp: uploadMetadataToDatabase_def split: option.splits json.splits)

lemma createPackageHistoryEntry_row:
  assumes "createPackageHistoryEntry env i u a w1 = Inr w2"
  shows "w2 = w1\<lparr>history_table := history_table w1
                   @ [\<lparr>h_metadataId = i, h_userId = u, h_action = a\<rparr>]\<rparr>"
  using assms
  by (auto simp: createPackageHistoryEntry_def split: if_splits)

lemma uploadToS3_tables:
  assumes "uploadToS3 env k b w = Inr w'"
  shows "metadata_table w' = metadata_table w \<and> history_table w' = history_table w
         \<and> rating_table w' = rating_table w"
  using assms by (auto simp: uploadToS3_def split: option.splits if_splits)

lemma uploadToS3_succeeds_iff:
  "(\<exists>w'. uploadToS3 env k b w = Inr w') \<longleftrightarrow>
   ((\<exists>name. bucket_name env = Some name \<and> name \<noteq> []) \<and> s3_error env = None)"
  by (auto simp: uploadToS3_def split: option.splits if_splits)

lemma uploadPackage_after_history:
  assumes "extractMetadataFromZip env (buffer f) = Inr metadata"
    and "getGithubUrlFromZip env (buffer f) = Inr url"
    and "parseGitHubUrl url = Some info"
    and "checkPackageHistoryExists env (ID metadata) w = Inr False"
    and "uploadMetadataToDatabase env metadata w = Inr w1"
    and "createPackageHistoryEntry env (ID metadata) 1 CREATE w1 = Inr w2"
    and "calculateAndStoreGithubMetrics env (ID metadata) (owner info) (repo info) w2 = w3"
  shows "uploadPackage env (Some f) w =
         (case uploadToS3 env (originalname f) (buffer f) w3 of
            Inl e \<Rightarrow> (internal_error, w3)
          | Inr w4 \<Rightarrow>
              (Responds \<lparr>status = 200,
                         payload = PackageJson metadata
                           \<lparr>Content = toBase64 env (buffer f), JSProgram = jsProgram\<rparr>,
                         headers = []\<rparr>, w4))"
  using assms by (simp add: uploadPackage_def)

text \<open>
  Claim C3, as amended. When the metadata and the history entry of an upload have been
  written and the score computation (with its fetch of the repository statistics) or
  the storing of the rating then fails, the two rows stay as written, the rating table
  is as it was before the upload, and the handler goes on to store the archive. It
  answers with the package (status 200) if that last step succeeds, that is, if the
  bucket name is set and not empty and the object store reports no error; otherwise it
  answers with status 500 while the two rows remain.
\<close>

theorem uploadPackage_rating_failure_keeps_rows:
  assumes "extractMetadataFromZip env (buffer f) = Inr metadata"
    and "getGithubUrlFromZip env (buffer f) = Inr url"
    and "parseGitHubUrl url = Some info"
    and "checkPackageHistoryExists env (ID metadata) w = Inr False"
    and "uploadMetadataToDatabase env metadata w = Inr w1"
    and "createPackageHistoryEntry env (ID metadata) 1 CREATE w1 = Inr w2"
    and "calculate env (owner info) (repo info) = Inl e \<or> rejected env CreateRating \<noteq> None"
  shows "(\<exists>n v. Name metadata = Some (JStr n) \<and> Version metadata = Some (JStr v)
            \<and> metadata_table (snd (uploadPackage env (Some f) w)) =
                 metadata_table w @ [\<lparr>row_name = n, row_version = v, row_id = ID metadata\<rparr>])
       \<and> history_table (snd (uploadPackage env (Some f) w)) =
           history_table w @ [\<lparr>h_metadataId = ID metadata, h_userId = 1, h_action = CREATE\<rparr>]
       \<and> rating_table (snd (uploadPackage env (Some f) w)) = rating_table w
       \<and> ((\<exists>name. bucket_name env = Some name \<and> name \<noteq> []) \<and> s3_error env = None \<longrightarrow>
            fst (uploadPackage env (Some f) w) =
              Responds \<lparr>status = 200,
                        payload = PackageJson metadata
                          \<lparr>Content = toBase64 env (buffer f), JSProgram = jsProgram\<rparr>,
                        headers = []\<rparr>)
       \<and> (bucket_name env = None \<or> bucket_name env = Some [] \<or> s3_error env \<noteq> None \<longrightarrow>
            fst (uploadPackage env (Some f) w) = internal_error)"
proof -
  have w3: "calculateAndStoreGithubMetrics env (ID metadata) (owner info) (repo info) w2 = w2"
    by (rule calculateAndStoreGithubMetrics_failed[OF assms(7)])
  note up = uploadPackage_after_history[OF assms(1-6) w3]
  obtain n v where nv: "Name metadata = Some (JStr n)" "Version metadata = Some (JStr v)"
    and w1: "w1 = w\<lparr>metadata_table := metadata_table w
                       @ [\<lparr>row_name = n, row_version = v, row_id = ID metadata\<rparr>]\<rparr>"
    using uploadMetadataToDatabase_row[OF assms(5)] by blast
  have w2: "w2 = w1\<lparr>history_table := history_table w1
                   @ [\<lparr>h_metadataId = ID metadata, h_userId = 1, h_action = CREATE\<rparr>]\<rparr>"
    by (rule createPackageHistoryEntry_row[OF assms(6)])
  have m2: "metadata_table w2 =
            metadata_table w @ [\<lparr>row_name = n, row_version = v, row_id = ID metadata\<rparr>]"
    and h2: "history_table w2 =
            history_table w @ [\<lparr>h_metadataId = ID metadata, h_userId = 1, h_action = CREATE\<rparr>]"
    and r2: "rating_table w2 = rating_table w"
    unfolding w2 w1 by simp_all
  show ?thesis
  proof (cases "uploadToS3 env (originalname f) (buffer f) w2")
    case (Inl err)
    then have res: "uploadPackage env (Some f) w = (internal_error, w2)"
      using up by simp
    have "\<not> ((\<exists>name. bucket_name env = Some name \<and> name \<noteq> []) \<and> s3_error env = None)"
      using Inl uploadToS3_succeeds_iff[of env "originalname f" "buffer f" w2] by auto
    then show ?thesis
      unfolding res using nv m2 h2 r2 by auto
  next
    case (Inr w4)
    then have res: "uploadPackage env (Some f) w =
         (Responds \<lparr>status = 200,
                    payload = PackageJson metadata
                      \<lparr>Content = toBase64 env (buffer f), JSProgram = jsProgram\<rparr>,
                    headers = []\<rparr>, w4)"
      using up by simp
    have ok: "(\<exists>name. bucket_name env = Some name \<and> name \<noteq> []) \<and> s3_error env = None"
      using Inr uploadToS3_succeeds_iff[of env "originalname f" "buffer f" w2] by blast
    have t: "metadata_table w4 = metadata_table w2" "history_table w4 = history_table w2"
      "rating_table w4 = rating_table w2"
      using uploadToS3_tables[OF Inr] by simp_all
    show ?thesis
      unfolding res using nv m2 h2 r2 t ok by auto
  qed
qed

theorem uploadPackage_rating_failure_keeps_rows_witness:
  "calculate sample_upload_env ''acme'' ''widget'' = Inl (Error ''Request failed with status code 403'')
   \<and> metadata_table (snd (uploadPackage sample_upload_env (Some widget_file) sample_world)) =
       [\<lparr>row_name = ''widget'', row_version = ''1.2.3'', row_id = ''id-1''\<rparr>]
   \<and> history_table (snd (uploadPackage sample_upload_env (Some widget_file) sample_world)) =
       [\<lparr>h_metadataId = ''id-1'', h_userId = 1, h_action = CREATE\<rparr>]
   \<and> rating_table (snd (uploadPackage sample_upload_env (Some widget_file) sample_world)) = []
   \<and> fst (uploadPackage sample_upload_env (Some widget_file) sample_world) =
       Responds \<lparr>status = 200,
                 payload = PackageJson
                   \<lparr>Name = Some (JStr ''widget''), Version = Some (JStr ''1.2.3''), ID = ''id-1''\<rparr>
                   \<lparr>Content = ''PK-widget'', JSProgram = jsProgram\<rparr>,
                 headers = []\<rparr>"
proof -
  let ?m = "\<lparr>Name = Some (JStr ''widget''), Version = Some (JStr ''1.2.3''), ID = ''id-1''\<rparr>"
  let ?w1 = "sample_world\<lparr>metadata_table :=
               [\<lparr>row_name = ''widget'', row_version = ''1.2.3'', row_id = ''id-1''\<rparr>]\<rparr>"
  let ?w2 = "?w1\<lparr>history_table :=
               [\<lparr>h_metadataId = ''id-1'', h_userId = 1, h_action = CREATE\<rparr>]\<rparr>"
  have 1: "extractMetadataFromZip sample_upload_env (buffer widget_file) = Inr ?m"
    by code_simp
  have 2: "getGithubUrlFromZip sample_upload_env (buffer widget_file)
           = Inr ''https://github.com/acme/widget''"
    by code_simp
  have 3: "parseGitHubUrl ''https://github.com/acme/widget''
           = Some \<lparr>owner = ''acme'', repo = ''widget''\<rparr>"
    by code_simp
  have 4: "checkPackageHistoryExists sample_upload_env (ID ?m) sample_world = Inr False"
    by code_simp
  have 5: "uploadMetadataToDatabase sample_upload_env ?m sample_world = Inr ?w1"
    by code_simp
  have 6: "createPackageHistoryEntry sample_upload_env (ID ?m) 1 CREATE ?w1 = Inr ?w2"
    by code_simp
  have 7: "calculate sample_upload_env (owner \<lparr>owner = ''acme'', repo = ''widget''\<rparr>)
             (repo \<lparr>owner = ''acme'', repo = ''widget''\<rparr>)
           = Inl (Error ''Request failed with status code 403'')
         \<or> rejected sample_upload_env CreateRating \<noteq> None"
    by (simp add: sample_upload_env_def)
  have 8: "(\<exists>name. bucket_name sample_upload_env = Some name \<and> name \<noteq> [])
           \<and> s3_error sample_upload_env = None"
    by (simp add: sample_upload_env_def)
  have 9: "toBase64 sample_upload_env (buffer widget_file) = ''PK-widget''"
    by (simp add: sample_upload_env_def widget_file_def)
  have 10: "calculate sample_upload_env ''acme'' ''widget''
            = Inl (Error ''Request failed with status code 403'')"
    by (simp add: sample_upload_env_def)
  show ?thesis
    using uploadPackage_rating_failure_keeps_rows[OF 1 2 3 4 5 6 7] 8 9 10
    by (simp add: sample_world_def)
qed

text \<open>
  Claim C3 as stated fails in its last part: with the same failing score computation
  and a bucket name that is not configured, the two rows are written and kept, no
  rating is stored, and the handler answers with status 500, not with success.
\<close>

theorem uploadPackage_rating_and_store_failure_is_500:
  "calculate (sample_upload_env\<lparr>bucket_name := None\<rparr>) ''acme'' ''widget''
     = Inl (Error ''Request failed with status code 403'')
   \<and> uploadPackage (sample_upload_env\<lparr>bucket_name := None\<rparr>) (Some widget_file) sample_world =
       (Responds \<lparr>status = 500, payload = Text ''Internal Server Error'', headers = []\<rparr>,
        \<lparr>metadata_table = [\<lparr>row_name = ''widget'', row_version = ''1.2.3'', row_id = ''id-1''\<rparr>],
         history_table = [\<lparr>h_metadataId = ''id-1'', h_userId = 1, h_action = CREATE\<rparr>],
         rating_table = [], user_ids = [1], bucket = []\<rparr>)"
  by code_simp

lemma wild_match_Nil: "wild_match [] t = (t = [])"
  by (cases t) simp_all

lemma wild_match_Cons:
  "wild_match (p # ps) t =
     (case t of [] \<Rightarrow> False
      | c # cs \<Rightarrow> (if p = CHR ''.'' then \<not> is_line_terminator c else p = c)
                    \<and> wild_match ps cs)"
  by (cases t) simp_all

lemma wild_match_manifest:
  assumes "wild_match ''package.json'' t"
  shows "take 7 t = ''package'' \<and> drop 8 t = ''json''"
  using assms
  by (simp add: wild_match_Cons wild_match_Nil split: list.splits)

lemma fallback_test_lookalike:
  assumes "fallback_test ''package.json'' p"
  shows "manifest_lookalike p"
proof -
  have L: "length ''package.json'' = 12"
    by simp
  have len: "12 \<le> length p" and wm: "wild_match ''package.json'' (drop (length p - 12) p)"
    using assms unfolding fallback_test_def L by blast+
  have "drop 8 (drop (length p - 12) p) = drop (length p - 4) p"
    using len by (simp add: add.commute)
  then show ?thesis
    using wild_match_manifest[OF wm] len by (simp add: manifest_lookalike_def)
qed

lemma manifest_name_lookalike: "manifest_lookalike ''package.json''"
  by (simp add: manifest_lookalike_def)

text \<open>
  Claim C4, as amended. When the extraction of the metadata or of the repository
  address from the uploaded archive fails, \<^verbatim>\<open>uploadPackage\<close> stops there: it answers
  with status 500 and the text \<^verbatim>\<open>Internal Server Error\<close> (the error of the extraction
  is logged and is not part of the answer), and the world is as before: no metadata row,
  no history row, no rating row and no stored archive is added. In particular this
  holds, with the error that the manifest was not found, for an archive that can be read
  and has no entry whose path ends in \<^verbatim>\<open>package\<close>, one more character, and \<^verbatim>\<open>json\<close>.
\<close>

theorem uploadPackage_extraction_failure_is_500_without_writes:
  "(extractMetadataFromZip env (buffer f) = Inl e \<or> getGithubUrlFromZip env (buffer f) = Inl e
      \<longrightarrow> uploadPackage env (Some f) w =
            (Responds \<lparr>status = 500, payload = Text ''Internal Server Error'', headers = []\<rparr>,
             w))
   \<and> (loadAsync env (buffer f) = Inr entries
      \<and> (\<forall>p\<in>set (map fst entries). \<not> manifest_lookalike p)
      \<longrightarrow> extractMetadataFromZip env (buffer f)
            = Inl (Error ''package.json not found inside the zip.'')
          \<and> uploadPackage env (Some f) w =
              (Responds \<lparr>status = 500, payload = Text ''Internal Server Error'', headers = []\<rparr>,
               w))"
proof -
  have a: "uploadPackage env (Some f) w =
            (Responds \<lparr>status = 500, payload = Text ''Internal Server Error'', headers = []\<rparr>,
             w)"
    if "extractMetadataFromZip env (buffer f) = Inl e' \<or> getGithubUrlFromZip env (buffer f) = Inl e'"
    for e'
    using that
    by (auto simp: uploadPackage_def internal_error_def send_def split: sum.splits)
  have b: "extractMetadataFromZip env (buffer f)
            = Inl (Error ''package.json not found inside the zip.'')"
    if l: "loadAsync env (buffer f) = Inr entries"
      and n: "\<forall>p\<in>set (map fst entries). \<not> manifest_lookalike p"
  proof -
    have n': "\<forall>p\<in>set (map fst entries).
                p \<noteq> ''package.json'' \<and> \<not> fallback_test ''package.json'' p"
      using n fallback_test_lookalike manifest_name_lookalike by blast
    have "map_of entries ''package.json'' = None"
      using n' by (auto simp: map_of_eq_None_iff)
    moreover have "filter (\<lambda>(path, content). fallback_test ''package.json'' path) entries = []"
      using n' by (auto simp: filter_empty_conv)
    ultimately have "extractFileFromZip env (buffer f) ''package.json''
                     = Inl (Error ''package.json not found inside the zip.'')"
      using l by (simp add: extractFileFromZip_def)
    then show ?thesis by (simp add: extractMetadataFromZip_def)
  qed
  show ?thesis
  proof (intro conjI impI)
    assume "extractMetadataFromZip env (buffer f) = Inl e
            \<or> getGithubUrlFromZip env (buffer f) = Inl e"
    then show "uploadPackage env (Some f) w =
            (Responds \<lparr>status = 500, payload = Text ''Internal Server Error'', headers = []\<rparr>,
             w)"
      by (rule a)
  next
    assume h: "loadAsync env (buffer f) = Inr entries
               \<and> (\<forall>p\<in>set (map fst entries). \<not> manifest_lookalike p)"
    then show e: "extractMetadataFromZip env (buffer f)
            = Inl (Error ''package.json not found inside the zip.'')"
      using b by simp
    show "uploadPackage env (Some f) w =
            (Responds \<lparr>status = 500, payload = Text ''Internal Server Error'', headers = []\<rparr>,
             w)"
      by (rule a[of "Error ''package.json not found inside the zip.''"]) (simp add: e)
  qed
qed

theorem uploadPackage_extraction_failure_is_500_without_writes_witness:
  "loadAsync sample_upload_env (buffer readme_file) = Inr [(''README.md'', ''hello'')]
   \<and> \<not> manifest_lookalike ''README.md''
   \<and> extractMetadataFromZip sample_upload_env (buffer readme_file)
       = Inl (Error ''package.json not found inside the zip.'')
   \<and> uploadPackage sample_upload_env (Some readme_file) sample_world
       = (Responds \<lparr>status = 500, payload = Text ''Internal Server Error'', headers = []\<rparr>,
          sample_world)"
proof -
  have l: "loadAsync sample_upload_env (buffer readme_file) = Inr [(''README.md'', ''hello'')]"
    by (simp add: sample_upload_env_def readme_file_def)
  have m: "\<not> manifest_lookalike ''README.md''"
    by (simp add: manifest_lookalike_def)
  have n: "\<forall>p\<in>set (map fst [(''README.md'', ''hello'')]). \<not> manifest_lookalike p"
    using m by simp
  note t = uploadPackage_extraction_failure_is_500_without_writes
            [of sample_upload_env readme_file _ sample_world "[(''README.md'', ''hello'')]"]
  have "extractMetadataFromZip sample_upload_env (buffer readme_file)
       = Inl (Error ''package.json not found inside the zip.'')
     \<and> uploadPackage sample_upload_env (Some readme_file) sample_world
       = (Responds \<lparr>status = 500, payload = Text ''Internal Server Error'', headers = []\<rparr>,
          sample_world)"
    by (rule conjunct2[OF t, rule_format]) (intro conjI l n)
  then show ?thesis
    using l m by simp
qed

text \<open>
  Claim C4 as stated fails in two ways. The answer to an archive without manifest is the
  plain status 500 that every other failure gets, not the error of the extraction. And
  an archive whose only entry is \<^verbatim>\<open>packageXjson\<close> has no entry that is or ends in the
  name of the manifest, yet the fallback expression takes that entry for the manifest
  (its dot stands for any character), the extraction succeeds, and the metadata and
  history rows are written.
\<close>

theorem uploadPackage_lookalike_manifest_is_ingested:
  "extractMetadataFromZip sample_upload_env (buffer readme_file)
     = Inl (Error ''package.json not found inside the zip.'')
   \<and> fst (uploadPackage sample_upload_env (Some readme_file) sample_world)
     = Responds \<lparr>status = 500, payload = Text ''Internal Server Error'', headers = []\<rparr>
   \<and> loadAsync sample_upload_env (buffer lookalike_file) = Inr [(''packageXjson'', ''{widget}'')]
   \<and> \<not> is_manifest_entry ''packageXjson''
   \<and> metadata_table (snd (uploadPackage sample_upload_env (Some lookalike_file) sample_world))
     = [\<lparr>row_name = ''widget'', row_version = ''1.2.3'', row_id = ''id-1''\<rparr>]
   \<and> history_table (snd (uploadPackage sample_upload_env (Some lookalike_file) sample_world))
     = [\<lparr>h_metadataId = ''id-1'', h_userId = 1, h_action = CREATE\<rparr>]
   \<and> fst (uploadPackage sample_upload_env (Some lookalike_file) sample_world)
     = Responds \<lparr>status = 200,
                 payload = PackageJson
                   \<lparr>Name = Some (JStr ''widget''), Version = Some (JStr ''1.2.3''), ID = ''id-1''\<rparr>
                   \<lparr>Content = ''PK-lookalike'', JSProgram = jsProgram\<rparr>,
                 headers = []\<rparr>"
  by code_simp

end
